theory Spec2Isabelle
  imports Main "HOL-Library.AList"
begin

section \<open>Python strings and the slug generator\<close>

text \<open>
  A Python \<open>str\<close> is modelled as a \<open>string\<close> whose characters are the code points
  below 256 (ASCII and Latin-1). On that range \<open>str.lower\<close>, the regular-expression class
  \<open>\s\<close> and \<open>str.strip\<close> act character by character, as written below.
\<close>

definition is_space :: "char \<Rightarrow> bool" where
  \<comment> \<open>the class \<open>\s\<close> of \<open>re\<close> on a \<open>str\<close> pattern: tab to carriage return, the
      separators 0x1C to 0x1F, space, NEL (0x85) and the no-break space (0xA0)\<close>
  "is_space c = (let n = (of_char c :: nat) in
     (9 \<le> n \<and> n \<le> 13) \<or> (28 \<le> n \<and> n \<le> 32) \<or> n = 133 \<or> n = 160)"

definition py_lower_char :: "char \<Rightarrow> char" where
  \<comment> \<open>\<open>str.lower\<close> on one code point: A to Z, and the Latin-1 capitals 0xC0 to 0xDE
      except the multiplication sign 0xD7\<close>
  "py_lower_char c = (let n = (of_char c :: nat) in
     if (65 \<le> n \<and> n \<le> 90) \<or> (192 \<le> n \<and> n \<le> 222 \<and> n \<noteq> 215)
     then char_of (n + 32) else c)"

definition py_lower :: "string \<Rightarrow> string" where
  "py_lower s = map py_lower_char s"

text \<open>
  \<open>re.sub('[cls]+', repl, s)\<close>: the scanner moves left to right; at a character of the
  class it consumes the longest run and emits \<open>repl\<close> once.
\<close>

function re_sub_runs :: "(char \<Rightarrow> bool) \<Rightarrow> string \<Rightarrow> string \<Rightarrow> string" where
  "re_sub_runs P repl [] = []"
| "re_sub_runs P repl (c # cs) =
     (if P c then repl @ re_sub_runs P repl (dropWhile P cs)
      else c # re_sub_runs P repl cs)"
  by pat_completeness auto
termination
  by (relation "measure (\<lambda>(P, repl, s). length s)")
     (auto simp: length_dropWhile_le le_imp_less_Suc)

definition re_sub_each :: "(char \<Rightarrow> bool) \<Rightarrow> string \<Rightarrow> string \<Rightarrow> string" where
  \<comment> \<open>\<open>re.sub('[cls]', repl, s)\<close>: every single character of the class is replaced\<close>
  "re_sub_each P repl s = concat (map (\<lambda>c. if P c then repl else [c]) s)"

definition py_strip :: "string \<Rightarrow> string \<Rightarrow> string" where
  \<comment> \<open>\<open>s.strip(chars)\<close>\<close>
  "py_strip chars s =
     rev (dropWhile (\<lambda>c. c \<in> set chars) (rev (dropWhile (\<lambda>c. c \<in> set chars) s)))"

definition space_or_underscore :: "char \<Rightarrow> bool" where
  \<comment> \<open>the class \<open>[\s_]\<close>\<close>
  "space_or_underscore c = (is_space c \<or> c = CHR ''_'')"

definition slug_char :: "char \<Rightarrow> bool" where
  \<comment> \<open>the class \<open>[a-z0-9\-]\<close>\<close>
  "slug_char c = (let n = (of_char c :: nat) in
     (97 \<le> n \<and> n \<le> 122) \<or> (48 \<le> n \<and> n \<le> 57) \<or> c = CHR ''-'')"

definition is_hyphen :: "char \<Rightarrow> bool" where
  "is_hyphen c = (c = CHR ''-'')"

definition slugify_device_name :: "string \<Rightarrow> string \<Rightarrow> string" where
  "slugify_device_name manufacturer_name model_name =
     (let combined = manufacturer_name @ '' '' @ model_name;
          slug = py_lower combined;
          slug = re_sub_runs space_or_underscore ''-'' slug;
          slug = re_sub_each (\<lambda>c. \<not> slug_char c) '''' slug;
          slug = re_sub_runs is_hyphen ''-'' slug;
          slug = py_strip ''-'' slug
      in slug)"

subsection \<open>The slug algorithm as the specification words it\<close>

text \<open>
  A second definition, written from the specification's sentence and not from the code:
  collapse a run into one hyphen, delete, collapse hyphens, trim. Each step is a
  structural recursion over the characters.
\<close>

fun collapse_runs :: "(char \<Rightarrow> bool) \<Rightarrow> string \<Rightarrow> string" where
  "collapse_runs P [] = []"
| "collapse_runs P [c] = (if P c then ''-'' else [c])"
| "collapse_runs P (c # d # cs) =
     (if P c \<and> P d then collapse_runs P (d # cs)
      else (if P c then ''-'' else [c]) @ collapse_runs P (d # cs))"

fun trim_trailing :: "string \<Rightarrow> string" where
  "trim_trailing [] = []"
| "trim_trailing (c # cs) =
     (let r = trim_trailing cs in if r = [] \<and> c = CHR ''-'' then [] else c # r)"

fun trim_leading :: "string \<Rightarrow> string" where
  "trim_leading [] = []"
| "trim_leading (c # cs) = (if c = CHR ''-'' then trim_leading cs else c # cs)"

definition slugify_spec :: "string \<Rightarrow> string \<Rightarrow> string" where
  "slugify_spec manufacturer model =
     trim_trailing (trim_leading (collapse_runs is_hyphen (filter slug_char
       (collapse_runs space_or_underscore (map py_lower_char (manufacturer @ '' '' @ model))))))"

subsection \<open>Shape of a slug\<close>

fun leading_hyphen :: "string \<Rightarrow> bool" where
  "leading_hyphen [] = False"
| "leading_hyphen (c # cs) = (c = CHR ''-'')"

fun trailing_hyphen :: "string \<Rightarrow> bool" where
  "trailing_hyphen [] = False"
| "trailing_hyphen [c] = (c = CHR ''-'')"
| "trailing_hyphen (c # d # cs) = trailing_hyphen (d # cs)"

fun doubled_hyphen :: "string \<Rightarrow> bool" where
  "doubled_hyphen [] = False"
| "doubled_hyphen [c] = False"
| "doubled_hyphen (c # d # cs) = ((c = CHR ''-'' \<and> d = CHR ''-'') \<or> doubled_hyphen (d # cs))"

definition clean_slug :: "string \<Rightarrow> bool" where
  "clean_slug s = (list_all slug_char s \<and> \<not> leading_hyphen s \<and> \<not> trailing_hyphen s
                   \<and> \<not> doubled_hyphen s)"

section \<open>Paths and the image resolver\<close>

definition path_join2 :: "string \<Rightarrow> string \<Rightarrow> string" where
  \<comment> \<open>one step of \<open>posixpath.join\<close>: an absolute component replaces what came before\<close>
  "path_join2 path b =
     (if b \<noteq> [] \<and> hd b = CHR ''/'' then b
      else if path = [] \<or> last path = CHR ''/'' then path @ b
      else path @ ''/'' @ b)"

definition os_path_join :: "string \<Rightarrow> string list \<Rightarrow> string" where
  "os_path_join a ps = foldl path_join2 a ps"

definition os_path_basename :: "string \<Rightarrow> string" where
  \<comment> \<open>what follows the last slash\<close>
  "os_path_basename p = rev (takeWhile (\<lambda>c. c \<noteq> CHR ''/'') (rev p))"

definition extensions :: "string list" where
  "extensions = [''.png'', ''.jpg'', ''.jpeg'', ''.svg'']"

text \<open>
  The loop of \<open>find_elevation_image\<close> over the extensions; \<open>exists\<close> is
  \<open>os.path.exists\<close> on the file system the call sees.
\<close>

fun probe_extensions ::
  "(string \<Rightarrow> bool) \<Rightarrow> string \<Rightarrow> string \<Rightarrow> string \<Rightarrow> string list \<Rightarrow> string option" where
  "probe_extensions exists elevation_dir slug image_type [] = None"
| "probe_extensions exists elevation_dir slug image_type (ext # exts) =
     (let filename = slug @ ''.'' @ image_type @ ext;
          full_path = os_path_join elevation_dir [filename]
      in if exists full_path then Some full_path
         else probe_extensions exists elevation_dir slug image_type exts)"

definition find_elevation_image ::
  "(string \<Rightarrow> bool) \<Rightarrow> string \<Rightarrow> string \<Rightarrow> string \<Rightarrow> string \<Rightarrow> string option" where
  "find_elevation_image exists repo_path manufacturer_name model_name image_type =
     (let slug = slugify_device_name manufacturer_name model_name;
          elevation_dir = os_path_join repo_path [''elevation-images'', manufacturer_name]
      in if \<not> exists elevation_dir then None
         else probe_extensions exists elevation_dir slug image_type extensions)"

text \<open>
  Names for the two kinds of path the resolver probes, to state its properties: the
  directory (the source's \<open>elevation_dir\<close>) and the candidate file of an extension
  (the source's \<open>full_path\<close>).
\<close>

definition elevation_dir_of :: "string \<Rightarrow> string \<Rightarrow> string" where
  "elevation_dir_of repo_path manufacturer_name =
     os_path_join repo_path [''elevation-images'', manufacturer_name]"

definition candidate_path :: "string \<Rightarrow> string \<Rightarrow> string \<Rightarrow> string \<Rightarrow> string \<Rightarrow> string" where
  "candidate_path repo_path manufacturer_name model_name image_type ext =
     os_path_join (elevation_dir_of repo_path manufacturer_name)
       [slugify_device_name manufacturer_name model_name @ ''.'' @ image_type @ ext]"

section \<open>The data of an import\<close>

text \<open>
  A value of the parsed YAML document. A Python \<open>dict\<close> is an association list (the
  order of \<open>items()\<close> is the list's order, a lookup finds the first entry of a key).
  Floating-point scalars are left out: the import only passes scalars on.
\<close>

datatype yaml =
    YNone
  | YBool bool
  | YInt int
  | YStr string
  | YList "yaml list"
  | YDict "(string \<times> yaml) list"

type_synonym pydict = "(string \<times> yaml) list"

fun truthy :: "yaml \<Rightarrow> bool" where
  "truthy YNone = False"
| "truthy (YBool b) = b"
| "truthy (YInt i) = (i \<noteq> 0)"
| "truthy (YStr s) = (s \<noteq> [])"
| "truthy (YList xs) = (xs \<noteq> [])"
| "truthy (YDict kvs) = (kvs \<noteq> [])"

definition get_truthy :: "pydict \<Rightarrow> string \<Rightarrow> bool" where
  \<comment> \<open>\<open>if d.get(k):\<close>, a missing key gives \<open>None\<close>\<close>
  "get_truthy d k = (case map_of d k of None \<Rightarrow> False | Some v \<Rightarrow> truthy v)"

text \<open>
  The argument \<open>data\<close> of the import. The manufacturer and the model, which the code
  reads with \<open>data.get\<close> and uses as strings, are fields of their own; \<open>entries\<close> is
  the rest of the dictionary.
\<close>

record device_type_data =
  manufacturer :: string
  model :: string
  entries :: pydict

record device_type =
  dt_manufacturer :: string
  dt_model :: string
  dt_front_image :: "string option"
  dt_rear_image :: "string option"
  dt_cf :: pydict

record component =
  comp_class :: string
  comp_key :: string
  comp_device_type :: "string \<times> string"
  comp_fields :: pydict

datatype orientation = Front | Rear

fun image_type_of :: "orientation \<Rightarrow> string" where
  "image_type_of Front = ''front''"
| "image_type_of Rear = ''rear''"

datatype error =
    Manufacturer_DoesNotExist
  | DuplicateDeviceType string string
  | TypeError
  | AttributeError
  | Raised string

text \<open>
  \<open>Manufacturer_DoesNotExist\<close> is what \<open>Manufacturer.objects.get\<close> raises;
  \<open>DuplicateDeviceType model manufacturer\<close> is the \<open>ValueError\<close> of the existence
  check; \<open>TypeError\<close> and \<open>AttributeError\<close> come from Python itself on a component
  list of the wrong shape; \<open>Raised cls\<close> is an exception of class \<open>cls\<close> raised inside
  a collaborator (the import form, a component class, the image field, the record's
  \<open>save\<close>).
\<close>

datatype message =
    CreatedDeviceType string string
  | CreatedComponents nat string string
  | ImportedImage orientation string
  | FailedImage orientation error
  | ImageNotFound orientation string string
  | SetCustomFields "string list"
  | FailedCustomFields error

datatype log_entry = Info message | Warning message

text \<open>
  The persistence layer: the manufacturers by name, the device types by their unique
  pair (manufacturer, model), the components in the order of their creation, the image
  files copied into the storage, and what the logger received.
\<close>

record world =
  manufacturers :: "string \<Rightarrow> bool"
  device_types :: "string \<times> string \<Rightarrow> device_type option"
  components :: "component list"
  media :: "string list"
  log :: "log_entry list"

text \<open>
  What the import does not decide itself: which paths exist, and whether a collaborator
  raises (\<open>Some cls\<close>) or not, as a function of what it is called with. A collaborator
  that raises leaves the store as it was.
\<close>

record env =
  path_exists :: "string \<Rightarrow> bool"
  form_save_raises :: "device_type_data \<Rightarrow> string option"
  init_raises :: "string \<Rightarrow> pydict \<Rightarrow> string option"
  bulk_create_raises :: "string \<Rightarrow> component list \<Rightarrow> string option"
  image_save_raises :: "orientation \<Rightarrow> string \<Rightarrow> string option"
  save_raises :: "device_type \<Rightarrow> string option"

definition log_info :: "bool \<Rightarrow> message \<Rightarrow> world \<Rightarrow> world" where
  \<comment> \<open>\<open>if logger: logger.info(...)\<close>\<close>
  "log_info logger m w = (if logger then w\<lparr>log := log w @ [Info m]\<rparr> else w)"

definition log_warning :: "bool \<Rightarrow> message \<Rightarrow> world \<Rightarrow> world" where
  \<comment> \<open>\<open>if logger: logger.warning(...)\<close>\<close>
  "log_warning logger m w = (if logger then w\<lparr>log := log w @ [Warning m]\<rparr> else w)"

definition persist :: "device_type \<Rightarrow> world \<Rightarrow> world" where
  \<comment> \<open>the record's \<open>save()\<close>: its row, found by the unique pair, now holds the record\<close>
  "persist dt w =
     w\<lparr>device_types := (device_types w)((dt_manufacturer dt, dt_model dt) \<mapsto> dt)\<rparr>"

definition new_device_type :: "device_type_data \<Rightarrow> device_type" where
  \<comment> \<open>the record \<open>DeviceTypeImportForm(data).save()\<close> returns\<close>
  "new_device_type data =
     \<lparr>dt_manufacturer = manufacturer data, dt_model = model data,
      dt_front_image = None, dt_rear_image = None, dt_cf = []\<rparr>"

section \<open>Components\<close>

definition COMPONENTS :: "(string \<times> string) list" where
  "COMPONENTS =
     [(''console-ports'', ''ConsolePortTemplate''),
      (''console-server-ports'', ''ConsoleServerPortTemplate''),
      (''power-ports'', ''PowerPortTemplate''),
      (''power-outlets'', ''PowerOutletTemplate''),
      (''interfaces'', ''InterfaceTemplate''),
      (''rear-ports'', ''RearPortTemplate''),
      (''front-ports'', ''FrontPortTemplate''),
      (''device-bays'', ''DeviceBayTemplate''),
      (''module-bays'', ''ModuleBayTemplate'')]"

definition STRIP_KEYWORDS :: "(string \<times> string list) list" where
  "STRIP_KEYWORDS = [(''interfaces'', [''poe_mode'', ''poe_type''])]"

definition strip_keywords :: "string \<Rightarrow> string list" where
  \<comment> \<open>\<open>STRIP_KEYWORDS.get(key, [])\<close>\<close>
  "strip_keywords key = (case map_of STRIP_KEYWORDS key of None \<Rightarrow> [] | Some ks \<Rightarrow> ks)"

fun py_iter :: "yaml \<Rightarrow> error + yaml list" where
  \<comment> \<open>\<open>for item in v\<close>: a list gives its elements, a dict its keys, a string its
      characters; anything else is not iterable\<close>
  "py_iter (YList xs) = Inr xs"
| "py_iter (YDict kvs) = Inr (map (\<lambda>kv. YStr (fst kv)) kvs)"
| "py_iter (YStr s) = Inr (map (\<lambda>c. YStr [c]) s)"
| "py_iter v = Inl TypeError"

fun item_items :: "yaml \<Rightarrow> error + pydict" where
  \<comment> \<open>\<open>item.items()\<close>\<close>
  "item_items (YDict kvs) = Inr kvs"
| "item_items v = Inl AttributeError"

definition make_component ::
  "env \<Rightarrow> string \<Rightarrow> string \<Rightarrow> device_type \<Rightarrow> yaml \<Rightarrow> error + component" where
  \<comment> \<open>\<open>component_class(device_type=devtype, **{k: v for k, v in item.items() if ...})\<close>;
      a key \<open>device_type\<close> among the keywords is a \<open>TypeError\<close> of the call itself\<close>
  "make_component e key cls devtype item =
     (case item_items item of
        Inl err \<Rightarrow> Inl err
      | Inr kvs \<Rightarrow>
          (let kwargs = filter (\<lambda>kv. fst kv \<notin> set (strip_keywords key)) kvs
           in if map_of kwargs ''device_type'' \<noteq> None then Inl TypeError
              else (case init_raises e cls kwargs of
                      Some x \<Rightarrow> Inl (Raised x)
                    | None \<Rightarrow>
                        Inr \<lparr>comp_class = cls, comp_key = key,
                             comp_device_type = (dt_manufacturer devtype, dt_model devtype),
                             comp_fields = kwargs\<rparr>)))"

fun make_components ::
  "env \<Rightarrow> string \<Rightarrow> string \<Rightarrow> device_type \<Rightarrow> yaml list \<Rightarrow> error + component list" where
  \<comment> \<open>the list comprehension: it stops at the first item that raises\<close>
  "make_components e key cls devtype [] = Inr []"
| "make_components e key cls devtype (item # items) =
     (case make_component e key cls devtype item of
        Inl err \<Rightarrow> Inl err
      | Inr c \<Rightarrow>
          (case make_components e key cls devtype items of
             Inl err \<Rightarrow> Inl err
           | Inr cs \<Rightarrow> Inr (c # cs)))"

definition component_list ::
  "env \<Rightarrow> device_type \<Rightarrow> string \<Rightarrow> string \<Rightarrow> yaml \<Rightarrow> error + component list" where
  "component_list e devtype key cls v =
     (case py_iter v of
        Inl err \<Rightarrow> Inl err
      | Inr items \<Rightarrow> make_components e key cls devtype items)"

definition import_kind ::
  "env \<Rightarrow> bool \<Rightarrow> device_type_data \<Rightarrow> device_type \<Rightarrow> string \<times> string \<Rightarrow> world
     \<Rightarrow> error option \<times> world" where
  \<comment> \<open>the body of the loop over \<open>COMPONENTS.items()\<close>\<close>
  "import_kind e logger data devtype kc w =
     (case map_of (entries data) (fst kc) of
        None \<Rightarrow> (None, w)
      | Some v \<Rightarrow>
          (case component_list e devtype (fst kc) (snd kc) v of
             Inl err \<Rightarrow> (Some err, w)
           | Inr cs \<Rightarrow>
               (case bulk_create_raises e (snd kc) cs of
                  Some x \<Rightarrow> (Some (Raised x), w)
                | None \<Rightarrow>
                    (None, log_info logger (CreatedComponents (length cs) (fst kc) (model data))
                             (w\<lparr>components := components w @ cs\<rparr>)))))"

fun import_components ::
  "env \<Rightarrow> bool \<Rightarrow> device_type_data \<Rightarrow> device_type \<Rightarrow> (string \<times> string) list \<Rightarrow> world
     \<Rightarrow> error option \<times> world" where
  "import_components e logger data devtype [] w = (None, w)"
| "import_components e logger data devtype (kc # rest) w =
     (case import_kind e logger data devtype kc w of
        (Some err, w') \<Rightarrow> (Some err, w')
      | (None, w') \<Rightarrow> import_components e logger data devtype rest w')"

section \<open>Images\<close>

fun set_image :: "orientation \<Rightarrow> string \<Rightarrow> device_type \<Rightarrow> device_type" where
  "set_image Front name dt = dt\<lparr>dt_front_image := Some name\<rparr>"
| "set_image Rear name dt = dt\<lparr>dt_rear_image := Some name\<rparr>"

definition import_image ::
  "env \<Rightarrow> bool \<Rightarrow> string \<Rightarrow> device_type_data \<Rightarrow> orientation \<Rightarrow> device_type \<times> world
     \<Rightarrow> device_type \<times> world" where
  \<comment> \<open>the block under \<open>if data.get("front_image")\<close>, and its twin for the rear; an
      exception of \<open>open\<close> or of the image field's \<open>save\<close> is caught\<close>
  "import_image e logger repo_path data orient s =
     (let devtype = fst s; w = snd s;
          found = find_elevation_image (path_exists e) repo_path (manufacturer data) (model data)
                    (image_type_of orient)
      in case found of
           None \<Rightarrow>
             (devtype, log_warning logger (ImageNotFound orient (manufacturer data) (model data)) w)
         | Some image_path \<Rightarrow>
             if image_path = [] then
               (devtype, log_warning logger (ImageNotFound orient (manufacturer data) (model data)) w)
             else
               (case image_save_raises e orient image_path of
                  Some x \<Rightarrow> (devtype, log_warning logger (FailedImage orient (Raised x)) w)
                | None \<Rightarrow>
                    (let devtype' = set_image orient (os_path_basename image_path) devtype
                     in (devtype',
                         log_info logger (ImportedImage orient (os_path_basename image_path))
                           (persist devtype' (w\<lparr>media := media w @ [os_path_basename image_path]\<rparr>))))))"

definition import_images ::
  "env \<Rightarrow> bool \<Rightarrow> string option \<Rightarrow> device_type_data \<Rightarrow> device_type \<times> world
     \<Rightarrow> device_type \<times> world" where
  \<comment> \<open>the block under \<open>if git_repo\<close>; the repository is given by its file-system path\<close>
  "import_images e logger git_repo data s =
     (case git_repo of
        None \<Rightarrow> s
      | Some repo_path \<Rightarrow>
          (let s1 = (if get_truthy (entries data) ''front_image''
                     then import_image e logger repo_path data Front s else s);
               s2 = (if get_truthy (entries data) ''rear_image''
                     then import_image e logger repo_path data Rear s1 else s1)
           in s2))"

section \<open>Custom fields\<close>

definition custom_field_mapping :: "(string \<times> string) list" where
  "custom_field_mapping =
     [(''cf_slug'', ''slug''),
      (''cf_weight'', ''weight''),
      (''cf_weight_unit'', ''weight_unit''),
      (''cf_airflow'', ''airflow''),
      (''cf_front_image'', ''front_image''),
      (''cf_rear_image'', ''rear_image'')]"

fun stage_custom_fields :: "pydict \<Rightarrow> (string \<times> string) list \<Rightarrow> pydict" where
  \<comment> \<open>the loop that fills \<open>cf_data\<close>\<close>
  "stage_custom_fields d [] = []"
| "stage_custom_fields d (m # ms) =
     (case map_of d (snd m) of
        None \<Rightarrow> stage_custom_fields d ms
      | Some v \<Rightarrow> (fst m, v) # stage_custom_fields d ms)"

fun assign_all :: "pydict \<Rightarrow> pydict \<Rightarrow> pydict" where
  \<comment> \<open>\<open>for cf_key, value in cf_data.items(): devtype.cf[cf_key] = value\<close>\<close>
  "assign_all cf [] = cf"
| "assign_all cf (kv # kvs) = assign_all (AList.update (fst kv) (snd kv) cf) kvs"

definition set_custom_fields ::
  "env \<Rightarrow> bool \<Rightarrow> device_type_data \<Rightarrow> device_type \<times> world \<Rightarrow> device_type \<times> world" where
  \<comment> \<open>the block from \<open>custom_field_mapping\<close> to the end of the \<open>try\<close>; the assignments
      change the record in memory, \<open>save\<close> writes it, and an exception is caught\<close>
  "set_custom_fields e logger data s =
     (let devtype = fst s; w = snd s;
          cf_data = stage_custom_fields (entries data) custom_field_mapping
      in if cf_data = [] then (devtype, w)
         else
           (let devtype' = devtype\<lparr>dt_cf := assign_all (dt_cf devtype) cf_data\<rparr>
            in case save_raises e devtype' of
                 Some x \<Rightarrow> (devtype', log_warning logger (FailedCustomFields (Raised x)) w)
               | None \<Rightarrow>
                   (devtype', log_info logger (SetCustomFields (map fst cf_data))
                                (persist devtype' w))))"

section \<open>The import\<close>

definition import_device_type_with_images ::
  "env \<Rightarrow> device_type_data \<Rightarrow> string option \<Rightarrow> bool \<Rightarrow> world
     \<Rightarrow> (error + device_type) \<times> world" where
  "import_device_type_with_images e data git_repo logger w =
     (if \<not> manufacturers w (manufacturer data) then (Inl Manufacturer_DoesNotExist, w)
      else
        (case device_types w (manufacturer data, model data) of
           Some existing \<Rightarrow> (Inl (DuplicateDeviceType (model data) (manufacturer data)), w)
         | None \<Rightarrow>
             (case form_save_raises e data of
                Some x \<Rightarrow> (Inl (Raised x), w)
              | None \<Rightarrow>
                  (let devtype = new_device_type data;
                       w1 = log_info logger (CreatedDeviceType (manufacturer data) (model data))
                              (persist devtype w)
                   in case import_components e logger data devtype COMPONENTS w1 of
                        (Some err, w2) \<Rightarrow> (Inl err, w2)
                      | (None, w2) \<Rightarrow>
                          (let s3 = import_images e logger git_repo data (devtype, w2);
                               s4 = set_custom_fields e logger data s3
                           in (Inr (fst s4), snd s4))))))"

section \<open>Predicates for the properties\<close>

definition base_record_intact :: "device_type_data \<Rightarrow> device_type \<times> world \<Rightarrow> bool" where
  \<comment> \<open>the record in memory and its persisted row both carry the pair of the input\<close>
  "base_record_intact data s =
     (dt_manufacturer (fst s) = manufacturer data \<and> dt_model (fst s) = model data \<and>
      (case device_types (snd s) (manufacturer data, model data) of
         None \<Rightarrow> False
       | Some r \<Rightarrow> dt_manufacturer r = manufacturer data \<and> dt_model r = model data))"

definition created_for ::
  "env \<Rightarrow> device_type_data \<Rightarrow> device_type \<Rightarrow> string \<times> string \<Rightarrow> component list" where
  \<comment> \<open>the components one entry of the table contributes when its list is built\<close>
  "created_for e data devtype kc =
     (case map_of (entries data) (fst kc) of
        None \<Rightarrow> []
      | Some v \<Rightarrow>
          (case component_list e devtype (fst kc) (snd kc) v of
             Inl err \<Rightarrow> []
           | Inr cs \<Rightarrow> cs))"

definition image_flag :: "orientation \<Rightarrow> string" where
  \<comment> \<open>the key of \<open>data\<close> that requests the image of an orientation\<close>
  "image_flag orient = (case orient of Front \<Rightarrow> ''front_image'' | Rear \<Rightarrow> ''rear_image'')"

section \<open>Example inputs\<close>

text \<open>
  A device type with two interfaces and a rear port (listed before the interfaces), a
  key no table knows, both images requested and a weight; a file system that holds the
  front image as \<open>.png\<close> and as \<open>.jpg\<close> and no rear image; a store that knows the
  manufacturer. A second file system has the directory under the slug of the
  manufacturer and not under its name.
\<close>

definition data_ex :: device_type_data where
  "data_ex =
     \<lparr>manufacturer = ''Palo Alto'', model = ''PA-850'',
      entries =
        [(''unknown-key'', YInt 1),
         (''rear-ports'', YList [YDict [(''name'', YStr ''r1'')]]),
         (''interfaces'',
            YList [YDict [(''name'', YStr ''eth0''), (''poe_mode'', YStr ''pd'')],
                   YDict [(''poe_type'', YStr ''type2''), (''name'', YStr ''eth1'')]]),
         (''front_image'', YBool True),
         (''rear_image'', YBool True),
         (''weight'', YInt 5)]\<rparr>"

definition fs_ex :: "string \<Rightarrow> bool" where
  "fs_ex p = (p \<in> set [''/repo/elevation-images/Palo Alto'',
                        ''/repo/elevation-images/Palo Alto/palo-alto-pa-850.front.png'',
                        ''/repo/elevation-images/Palo Alto/palo-alto-pa-850.front.jpg''])"

definition fs_slug_dir :: "string \<Rightarrow> bool" where
  "fs_slug_dir p = (p \<in> set [''/repo/elevation-images/palo-alto'',
                              ''/repo/elevation-images/palo-alto/palo-alto-pa-850.front.png''])"

definition data_reordered :: device_type_data where
  \<comment> \<open>the component lists of \<open>data_ex\<close> in another order, and nothing else\<close>
  "data_reordered =
     \<lparr>manufacturer = ''Palo Alto'', model = ''PA-850'',
      entries =
        [(''interfaces'',
            YList [YDict [(''name'', YStr ''eth0''), (''poe_mode'', YStr ''pd'')],
                   YDict [(''poe_type'', YStr ''type2''), (''name'', YStr ''eth1'')]]),
         (''rear-ports'', YList [YDict [(''name'', YStr ''r1'')]])]\<rparr>"

definition env_ok :: env where
  \<comment> \<open>no collaborator raises\<close>
  "env_ok =
     \<lparr>path_exists = fs_ex, form_save_raises = (\<lambda>d. None), init_raises = (\<lambda>c k. None),
      bulk_create_raises = (\<lambda>c cs. None), image_save_raises = (\<lambda>orient p. None),
      save_raises = (\<lambda>dt. None)\<rparr>"

definition world_ex :: world where
  "world_ex =
     \<lparr>manufacturers = (\<lambda>n. n = ''Palo Alto''), device_types = (\<lambda>k. None),
      components = [], media = [], log = []\<rparr>"

section \<open>The slug generator: refinement and shape\<close>

lemma re_sub_runs_collapse: "re_sub_runs P ''-'' s = collapse_runs P s"
proof (induction P s rule: collapse_runs.induct)
  case (1 P)
  then show ?case by simp
next
  case (2 P c)
  then show ?case by simp
next
  case (3 P c d cs)
  have IH: "re_sub_runs P ''-'' (d # cs) = collapse_runs P (d # cs)"
    using 3 by (cases "P c \<and> P d") blast+
  show ?case
  proof (cases "P c")
    case False
    with IH show ?thesis by simp
  next
    case True
    show ?thesis
    proof (cases "P d")
      case False
      have "re_sub_runs P ''-'' (c # d # cs) = ''-'' @ re_sub_runs P ''-'' (d # cs)"
        using True False by simp
      with IH True False show ?thesis by simp
    next
      case Pd: True
      have "re_sub_runs P ''-'' (c # d # cs) = ''-'' @ re_sub_runs P ''-'' (dropWhile P cs)"
        using True Pd by simp
      also have "\<dots> = re_sub_runs P ''-'' (d # cs)" using Pd by simp
      finally show ?thesis using True Pd IH by simp
    qed
  qed
qed

lemma re_sub_each_delete: "re_sub_each (\<lambda>c. \<not> Q c) [] s = filter Q s"
  by (induction s) (auto simp: re_sub_each_def)

lemma trim_leading_dropWhile: "trim_leading s = dropWhile (\<lambda>c. c \<in> set ''-'') s"
  by (induction s) auto

lemma trim_trailing_snoc:
  "trim_trailing (s @ [c]) = (if c = CHR ''-'' then trim_trailing s else s @ [c])"
  by (induction s) (auto simp: Let_def)

lemma trim_trailing_rev: "trim_trailing s = rev (dropWhile (\<lambda>c. c \<in> set ''-'') (rev s))"
  by (induction s rule: rev_induct) (auto simp: trim_trailing_snoc)

lemma slugify_refines_spec: "slugify_device_name m d = slugify_spec m d"
  by (simp add: slugify_device_name_def slugify_spec_def py_strip_def py_lower_def
      re_sub_runs_collapse re_sub_each_delete trim_leading_dropWhile trim_trailing_rev)

lemma slugify_palo_alto: "slugify_device_name ''Palo Alto'' ''PA-850'' = ''palo-alto-pa-850''"
  by code_simp


lemma set_collapse_runs: "set (collapse_runs P s) \<subseteq> set s \<union> {CHR ''-''}"
  by (induction P s rule: collapse_runs.induct) auto

lemma set_trim_leading: "set (trim_leading s) \<subseteq> set s"
  by (induction s) auto

lemma set_trim_trailing: "set (trim_trailing s) \<subseteq> set s"
  by (induction s) (auto simp: Let_def split: if_splits)

lemma slug_char_hyphen: "slug_char CHR ''-''"
  by (simp add: slug_char_def)

lemma slugify_spec_chars: "list_all slug_char (slugify_spec m d)"
proof -
  let ?a = "filter slug_char (collapse_runs space_or_underscore (map py_lower_char (m @ '' '' @ d)))"
  have "set (slugify_spec m d) \<subseteq> set (collapse_runs is_hyphen ?a)"
    unfolding slugify_spec_def using set_trim_trailing set_trim_leading by blast
  also have "\<dots> \<subseteq> set ?a \<union> {CHR ''-''}" by (rule set_collapse_runs)
  finally have "\<forall>c \<in> set (slugify_spec m d). slug_char c"
    using slug_char_hyphen by auto
  then show ?thesis by (simp add: list_all_iff)
qed

lemma collapse_hyphen_head:
  "collapse_runs is_hyphen (c # cs) = x # xs \<Longrightarrow> x = c"
  by (induction is_hyphen "c # cs" arbitrary: c cs rule: collapse_runs.induct)
     (auto simp: is_hyphen_def split: if_splits)

lemma collapse_runs_nonempty: "collapse_runs P (c # cs) \<noteq> []"
  by (induction P "c # cs" arbitrary: c cs rule: collapse_runs.induct) auto

lemma collapse_no_doubled: "\<not> doubled_hyphen (collapse_runs is_hyphen s)"
proof (induction is_hyphen s rule: collapse_runs.induct)
  case 1
  then show ?case by simp
next
  case (2 c)
  then show ?case by simp
next
  case (3 c d cs)
  show ?case
  proof (cases "is_hyphen c \<and> is_hyphen d")
    case True
    with 3 show ?thesis by simp
  next
    case False
    have IH: "\<not> doubled_hyphen (collapse_runs is_hyphen (d # cs))" using 3 False by blast
    obtain x xs where X: "collapse_runs is_hyphen (d # cs) = x # xs"
      using collapse_runs_nonempty [of is_hyphen d cs]
      by (cases "collapse_runs is_hyphen (d # cs)") auto
    then have "x = d" by (rule collapse_hyphen_head)
    with False IH X show ?thesis by (auto simp: is_hyphen_def)
  qed
qed

lemma doubled_trim_leading: "\<not> doubled_hyphen s \<Longrightarrow> \<not> doubled_hyphen (trim_leading s)"
  by (induction s rule: doubled_hyphen.induct) (auto split: if_splits)

lemma doubled_Cons: "doubled_hyphen xs \<Longrightarrow> doubled_hyphen (c # xs)"
  by (cases xs) auto

lemma doubled_trim_trailing: "\<not> doubled_hyphen s \<Longrightarrow> \<not> doubled_hyphen (trim_trailing s)"
proof (induction s)
  case Nil
  then show ?case by simp
next
  case (Cons c cs)
  then have IH: "\<not> doubled_hyphen (trim_trailing cs)" using doubled_Cons by blast
  show ?case
  proof (cases "trim_trailing cs")
    case Nil
    then show ?thesis by (simp add: Let_def)
  next
    case (Cons x xs)
    then obtain ys where "cs = x # ys" by (cases cs) (auto simp: Let_def split: if_splits)
    with Cons IH Cons.prems show ?thesis by (auto simp: Let_def)
  qed
qed

lemma leading_trim_leading: "\<not> leading_hyphen (trim_leading s)"
  by (induction s) auto

lemma leading_trim_trailing: "\<not> leading_hyphen s \<Longrightarrow> \<not> leading_hyphen (trim_trailing s)"
  by (cases s) (auto simp: Let_def)

lemma trailing_trim_trailing: "\<not> trailing_hyphen (trim_trailing s)"
proof (induction s)
  case Nil
  then show ?case by simp
next
  case (Cons c cs)
  then show ?case by (cases "trim_trailing cs") (auto simp: Let_def)
qed

lemma slugify_spec_clean: "clean_slug (slugify_spec m d)"
  unfolding clean_slug_def
proof (intro conjI)
  show "list_all slug_char (slugify_spec m d)" by (rule slugify_spec_chars)
  show "\<not> leading_hyphen (slugify_spec m d)"
    unfolding slugify_spec_def by (intro leading_trim_trailing leading_trim_leading)
  show "\<not> trailing_hyphen (slugify_spec m d)"
    unfolding slugify_spec_def by (rule trailing_trim_trailing)
  show "\<not> doubled_hyphen (slugify_spec m d)"
    unfolding slugify_spec_def
    by (intro doubled_trim_trailing doubled_trim_leading collapse_no_doubled)
qed

lemma lower_slug_char: "slug_char c \<Longrightarrow> py_lower_char c = c"
  by (auto simp: slug_char_def py_lower_char_def Let_def)

lemma slug_char_not_space: "slug_char c \<Longrightarrow> \<not> space_or_underscore c"
  by (auto simp: slug_char_def space_or_underscore_def is_space_def Let_def)

lemma collapse_runs_skip:
  "\<forall>c \<in> set s. \<not> P c \<Longrightarrow> collapse_runs P (s @ t) = s @ collapse_runs P t"
proof (induction s)
  case Nil
  then show ?case by simp
next
  case (Cons c cs)
  then show ?case by (cases "cs @ t") auto
qed

lemma collapse_runs_id: "\<not> doubled_hyphen s \<Longrightarrow> collapse_runs is_hyphen s = s"
  by (induction is_hyphen s rule: collapse_runs.induct) (auto simp: is_hyphen_def)

lemma doubled_snoc:
  "\<not> doubled_hyphen s \<Longrightarrow> \<not> trailing_hyphen s \<Longrightarrow> \<not> doubled_hyphen (s @ ''-'')"
  by (induction s rule: doubled_hyphen.induct) auto

lemma trim_leading_snoc:
  "\<not> leading_hyphen s \<Longrightarrow> trim_leading (s @ ''-'') = (if s = [] then [] else s @ ''-'')"
  by (cases s) auto

lemma trim_trailing_id: "\<not> trailing_hyphen s \<Longrightarrow> trim_trailing s = s"
  by (induction s rule: trailing_hyphen.induct) (auto simp: Let_def)

lemma slugify_spec_fixpoint:
  assumes "clean_slug s"
  shows "slugify_spec s [] = s"
proof -
  from assms have chars: "\<forall>c \<in> set s. slug_char c" and lead: "\<not> leading_hyphen s"
    and trail: "\<not> trailing_hyphen s" and dbl: "\<not> doubled_hyphen s"
    by (auto simp: clean_slug_def list_all_iff)
  have sp: "space_or_underscore CHR '' ''"
    by (simp add: space_or_underscore_def is_space_def)
  have "map py_lower_char s = s"
    by (rule map_idI) (simp add: chars lower_slug_char)
  then have 1: "map py_lower_char (s @ '' '' @ []) = s @ '' ''"
    by (simp add: py_lower_char_def)
  have 2: "collapse_runs space_or_underscore (s @ '' '') = s @ ''-''"
    using chars sp by (simp add: collapse_runs_skip slug_char_not_space)
  have 3: "filter slug_char (s @ ''-'') = s @ ''-''"
    using chars by (simp add: slug_char_hyphen)
  have 4: "collapse_runs is_hyphen (s @ ''-'') = s @ ''-''"
    using dbl trail by (simp add: collapse_runs_id doubled_snoc)
  have 5: "trim_trailing (trim_leading (s @ ''-'')) = s"
    using lead trail by (simp add: trim_leading_snoc trim_trailing_snoc trim_trailing_id)
  show ?thesis
    unfolding slugify_spec_def by (simp only: 1 2 3 4 5)
qed


text \<open>
  C2. The slug generator is a total function of its two arguments that computes what the
  specification describes: the two names joined by one space, lowercased, every run of
  whitespace or underscores collapsed into one hyphen, every character outside
  \<open>[a-z0-9-]\<close> deleted, runs of hyphens collapsed and the hyphens at both ends
  trimmed. On "Palo Alto" and "PA-850" it gives "palo-alto-pa-850".
\<close>

theorem slugify_computes_spec_algorithm:
  "slugify_device_name m d = slugify_spec m d \<and>
   slugify_device_name ''Palo Alto'' ''PA-850'' = ''palo-alto-pa-850''"
  using slugify_refines_spec [of m d] slugify_palo_alto by simp

text \<open>
  C9. For every pair of input strings the slug has only characters of \<open>[a-z0-9-]\<close>,
  no hyphen at its start or its end and no two hyphens in a row; the slug of a slug (as
  the manufacturer, with the empty model) is that slug again.
\<close>

theorem slugify_output_clean_and_stable:
  "list_all slug_char (slugify_device_name m d) \<and>
   \<not> leading_hyphen (slugify_device_name m d) \<and>
   \<not> trailing_hyphen (slugify_device_name m d) \<and>
   \<not> doubled_hyphen (slugify_device_name m d) \<and>
   slugify_device_name (slugify_device_name m d) [] = slugify_device_name m d"
proof -
  have c: "clean_slug (slugify_spec m d)" by (rule slugify_spec_clean)
  have "slugify_spec (slugify_spec m d) [] = slugify_spec m d"
    using c by (rule slugify_spec_fixpoint)
  with c show ?thesis by (simp add: slugify_refines_spec clean_slug_def)
qed

section \<open>The image resolver\<close>

lemma probe_extensions_find:
  "probe_extensions ex dir slug ty exts =
     map_option (\<lambda>ext. os_path_join dir [slug @ ''.'' @ ty @ ext])
       (List.find (\<lambda>ext. ex (os_path_join dir [slug @ ''.'' @ ty @ ext])) exts)"
  by (induction exts) (auto simp: Let_def)

lemma find_elevation_image_eq:
  "find_elevation_image ex repo man mdl ty =
     (if \<not> ex (elevation_dir_of repo man) then None
      else map_option (candidate_path repo man mdl ty)
             (List.find (\<lambda>ext. ex (candidate_path repo man mdl ty ext)) extensions))"
proof -
  have "candidate_path repo man mdl ty =
          (\<lambda>ext. os_path_join (elevation_dir_of repo man)
             [slugify_device_name man mdl @ ''.'' @ ty @ ext])"
    by (rule ext) (simp add: candidate_path_def)
  then show ?thesis
    by (simp add: find_elevation_image_def elevation_dir_of_def probe_extensions_find Let_def)
qed

text \<open>
  C4. The resolver probes the directory obtained by joining the repository root, the
  fixed name \<open>elevation-images\<close> and the manufacturer name as it is given (not its
  slug). It returns nothing when that directory does not exist, and nothing when the
  directory exists and none of the four candidate files
  \<open><slug>.<orientation><extension>\<close> exists in it. Its result depends on the file
  system only through that directory and those four files.
\<close>

theorem resolve_absent:
  "(\<not> ex (elevation_dir_of repo man) \<longrightarrow> find_elevation_image ex repo man mdl ty = None) \<and>
   (ex (elevation_dir_of repo man) \<and>
    (\<forall>ext \<in> set [''.png'', ''.jpg'', ''.jpeg'', ''.svg'']. \<not> ex (candidate_path repo man mdl ty ext))
      \<longrightarrow> find_elevation_image ex repo man mdl ty = None) \<and>
   ((\<forall>p \<in> set (elevation_dir_of repo man # map (candidate_path repo man mdl ty) extensions).
        ex p = ex' p)
      \<longrightarrow> find_elevation_image ex repo man mdl ty = find_elevation_image ex' repo man mdl ty)"
  by (simp add: find_elevation_image_eq extensions_def)

lemma ex_dir: "elevation_dir_of ''/repo'' ''Palo Alto'' = ''/repo/elevation-images/Palo Alto''"
  by (simp add: elevation_dir_of_def os_path_join_def path_join2_def)

lemma ex_candidate:
  "candidate_path ''/repo'' ''Palo Alto'' ''PA-850'' ty ext =
     ''/repo/elevation-images/Palo Alto/palo-alto-pa-850.'' @ ty @ ext"
  by (simp add: candidate_path_def ex_dir slugify_palo_alto os_path_join_def path_join2_def)

text \<open>
  On the example: the directory named by the slug \<open>palo-alto\<close> exists and holds a
  matching file, the directory named \<open>Palo Alto\<close> does not, and nothing is found; with
  the directory \<open>Palo Alto\<close> present, no rear image is found.
\<close>

theorem resolve_absent_witness:
  "\<not> fs_slug_dir (elevation_dir_of ''/repo'' ''Palo Alto'') \<and>
   find_elevation_image fs_slug_dir ''/repo'' ''Palo Alto'' ''PA-850'' ''front'' = None \<and>
   fs_ex (elevation_dir_of ''/repo'' ''Palo Alto'') \<and>
   list_all (\<lambda>ext. \<not> fs_ex (candidate_path ''/repo'' ''Palo Alto'' ''PA-850'' ''rear'' ext))
     [''.png'', ''.jpg'', ''.jpeg'', ''.svg''] \<and>
   find_elevation_image fs_ex ''/repo'' ''Palo Alto'' ''PA-850'' ''rear'' = None \<and>
   list_all (\<lambda>p. fs_ex p = (fs_ex p \<or> p = ''/repo/README.md''))
     (elevation_dir_of ''/repo'' ''Palo Alto'' #
      map (candidate_path ''/repo'' ''Palo Alto'' ''PA-850'' ''front'') extensions) \<and>
   find_elevation_image fs_ex ''/repo'' ''Palo Alto'' ''PA-850'' ''front'' =
     find_elevation_image (\<lambda>p. fs_ex p \<or> p = ''/repo/README.md'') ''/repo'' ''Palo Alto'' ''PA-850''
       ''front''"
proof -
  have a: "\<not> fs_slug_dir (elevation_dir_of ''/repo'' ''Palo Alto'')"
    by (simp add: ex_dir fs_slug_dir_def)
  have b: "fs_ex (elevation_dir_of ''/repo'' ''Palo Alto'')"
    by (simp add: ex_dir fs_ex_def)
  have c: "list_all (\<lambda>ext. \<not> fs_ex (candidate_path ''/repo'' ''Palo Alto'' ''PA-850'' ''rear'' ext))
     [''.png'', ''.jpg'', ''.jpeg'', ''.svg'']"
    by (simp add: ex_candidate fs_ex_def)
  have d: "list_all (\<lambda>p. fs_ex p = (fs_ex p \<or> p = ''/repo/README.md''))
     (elevation_dir_of ''/repo'' ''Palo Alto'' #
      map (candidate_path ''/repo'' ''Palo Alto'' ''PA-850'' ''front'') extensions)"
    by (simp add: ex_dir ex_candidate extensions_def)
  show ?thesis
    using a b c d
      resolve_absent [of fs_slug_dir "''/repo''" "''Palo Alto''" "''PA-850''" "''front''"]
      resolve_absent [of fs_ex "''/repo''" "''Palo Alto''" "''PA-850''" "''rear''"]
      resolve_absent [of fs_ex "''/repo''" "''Palo Alto''" "''PA-850''" "''front''"
                         "\<lambda>p. fs_ex p \<or> p = ''/repo/README.md''"]
    by (simp add: list_all_iff)
qed

text \<open>
  C5. The extensions are probed in the order \<open>.png\<close>, \<open>.jpg\<close>, \<open>.jpeg\<close>,
  \<open>.svg\<close> and the first candidate that exists is returned: when the directory exists,
  the result is the candidate of the first extension in that order whose file exists; in
  particular the \<open>.png\<close> candidate wins whatever else exists.
\<close>

theorem resolve_priority:
  "(ex (elevation_dir_of repo man) \<and> ex (candidate_path repo man mdl ty ''.png'')
      \<longrightarrow> find_elevation_image ex repo man mdl ty = Some (candidate_path repo man mdl ty ''.png'')) \<and>
   (ex (elevation_dir_of repo man) \<longrightarrow>
      find_elevation_image ex repo man mdl ty =
        map_option (candidate_path repo man mdl ty)
          (List.find (\<lambda>ext. ex (candidate_path repo man mdl ty ext))
             [''.png'', ''.jpg'', ''.jpeg'', ''.svg'']))"
  by (simp add: find_elevation_image_eq extensions_def)

theorem resolve_priority_witness:
  "fs_ex (elevation_dir_of ''/repo'' ''Palo Alto'') \<and>
   fs_ex (candidate_path ''/repo'' ''Palo Alto'' ''PA-850'' ''front'' ''.png'') \<and>
   fs_ex (candidate_path ''/repo'' ''Palo Alto'' ''PA-850'' ''front'' ''.jpg'') \<and>
   find_elevation_image fs_ex ''/repo'' ''Palo Alto'' ''PA-850'' ''front'' =
     Some ''/repo/elevation-images/Palo Alto/palo-alto-pa-850.front.png''"
proof -
  have a: "fs_ex (elevation_dir_of ''/repo'' ''Palo Alto'')"
    by (simp add: ex_dir fs_ex_def)
  have b: "fs_ex (candidate_path ''/repo'' ''Palo Alto'' ''PA-850'' ''front'' ''.png'')"
    "fs_ex (candidate_path ''/repo'' ''Palo Alto'' ''PA-850'' ''front'' ''.jpg'')"
    by (simp_all add: ex_candidate fs_ex_def)
  show ?thesis
    using a b resolve_priority [of fs_ex "''/repo''" "''Palo Alto''" "''PA-850''" "''front''"]
    by (simp add: ex_candidate)
qed

section \<open>The store under the stages of the import\<close>

lemma log_info_fields [simp]:
  "manufacturers (log_info l m w) = manufacturers w"
  "device_types (log_info l m w) = device_types w"
  "components (log_info l m w) = components w"
  "media (log_info l m w) = media w"
  "log (log_info l m w) = (if l then log w @ [Info m] else log w)"
  by (simp_all add: log_info_def)

lemma log_warning_fields [simp]:
  "manufacturers (log_warning l m w) = manufacturers w"
  "device_types (log_warning l m w) = device_types w"
  "components (log_warning l m w) = components w"
  "media (log_warning l m w) = media w"
  "log (log_warning l m w) = (if l then log w @ [Warning m] else log w)"
  by (simp_all add: log_warning_def)

lemma persist_fields [simp]:
  "manufacturers (persist dt w) = manufacturers w"
  "device_types (persist dt w) = (device_types w)((dt_manufacturer dt, dt_model dt) \<mapsto> dt)"
  "components (persist dt w) = components w"
  "media (persist dt w) = media w"
  "log (persist dt w) = log w"
  by (simp_all add: persist_def)

lemma set_image_key [simp]:
  "dt_manufacturer (set_image orient n dt) = dt_manufacturer dt"
  "dt_model (set_image orient n dt) = dt_model dt"
  "dt_cf (set_image orient n dt) = dt_cf dt"
  by (cases orient; simp)+

subsection \<open>The image stage\<close>

lemma import_image_components:
  "components (snd (import_image e l repo data orient s)) = components (snd s)"
  by (simp add: import_image_def Let_def split: option.splits)

lemma import_image_intact:
  "base_record_intact data s \<Longrightarrow> base_record_intact data (import_image e l repo data orient s)"
  by (cases orient) (auto simp: base_record_intact_def import_image_def Let_def split: option.splits)

lemma import_image_log_mono:
  "set (log (snd s)) \<subseteq> set (log (snd (import_image e l repo data orient s)))"
  by (auto simp: import_image_def Let_def split: option.splits)

lemma probe_extensions_nonempty:
  "probe_extensions ex dir slug ty exts = Some p \<Longrightarrow> p \<noteq> []"
  by (induction exts) (auto simp: Let_def os_path_join_def path_join2_def split: if_splits)

lemma find_elevation_image_nonempty:
  "find_elevation_image ex repo man mdl ty = Some p \<Longrightarrow> p \<noteq> []"
  by (auto simp: find_elevation_image_def Let_def split: if_splits
           dest: probe_extensions_nonempty)

lemma import_image_failure:
  assumes "find_elevation_image (path_exists e) repo (manufacturer data) (model data)
             (image_type_of orient) = Some p"
    and "image_save_raises e orient p = Some x"
  shows "import_image e l repo data orient s =
           (fst s, log_warning l (FailedImage orient (Raised x)) (snd s))"
  using assms find_elevation_image_nonempty [OF assms(1)]
  by (simp add: import_image_def Let_def)

lemma import_image_miss:
  assumes "find_elevation_image (path_exists e) repo (manufacturer data) (model data)
             (image_type_of orient) = None"
  shows "import_image e l repo data orient s =
           (fst s, log_warning l (ImageNotFound orient (manufacturer data) (model data)) (snd s))"
  using assms by (simp add: import_image_def Let_def)

lemma import_images_components:
  "components (snd (import_images e l git_repo data s)) = components (snd s)"
  by (simp add: import_images_def Let_def import_image_components split: option.splits)

lemma import_images_intact:
  "base_record_intact data s \<Longrightarrow> base_record_intact data (import_images e l git_repo data s)"
  by (simp add: import_images_def Let_def import_image_intact split: option.splits)

lemma import_images_failure_logged:
  assumes "get_truthy (entries data) (image_flag orient)"
    and "find_elevation_image (path_exists e) repo (manufacturer data) (model data)
           (image_type_of orient) = Some p"
    and "image_save_raises e orient p = Some x"
  shows "Warning (FailedImage orient (Raised x))
           \<in> set (log (snd (import_images e True (Some repo) data s)))"
proof (cases orient)
  case Front
  let ?s1 = "import_image e True repo data Front s"
  have "Warning (FailedImage Front (Raised x)) \<in> set (log (snd ?s1))"
    using import_image_failure [OF assms(2,3)] Front by simp
  moreover have "set (log (snd ?s1)) \<subseteq> set (log (snd (import_image e True repo data Rear ?s1)))"
    by (rule import_image_log_mono)
  ultimately show ?thesis
    using assms(1) Front by (auto simp: import_images_def image_flag_def Let_def)
next
  case Rear
  then show ?thesis
    using assms(1) import_image_failure [OF assms(2,3)]
    by (simp add: import_images_def image_flag_def Let_def)
qed

lemma import_images_miss_logged:
  assumes "get_truthy (entries data) (image_flag orient)"
    and "find_elevation_image (path_exists e) repo (manufacturer data) (model data)
           (image_type_of orient) = None"
  shows "Warning (ImageNotFound orient (manufacturer data) (model data))
           \<in> set (log (snd (import_images e True (Some repo) data s)))"
proof (cases orient)
  case Front
  let ?s1 = "import_image e True repo data Front s"
  have "Warning (ImageNotFound Front (manufacturer data) (model data)) \<in> set (log (snd ?s1))"
    using import_image_miss [OF assms(2)] Front by simp
  moreover have "set (log (snd ?s1)) \<subseteq> set (log (snd (import_image e True repo data Rear ?s1)))"
    by (rule import_image_log_mono)
  ultimately show ?thesis
    using assms(1) Front by (auto simp: import_images_def image_flag_def Let_def)
next
  case Rear
  then show ?thesis
    using assms(1) import_image_miss [OF assms(2)]
    by (simp add: import_images_def image_flag_def Let_def)
qed

subsection \<open>The custom-field stage\<close>

lemma set_custom_fields_components:
  "components (snd (set_custom_fields e l data s)) = components (snd s)"
  by (simp add: set_custom_fields_def Let_def split: option.splits)

lemma set_custom_fields_key:
  "dt_manufacturer (fst (set_custom_fields e l data s)) = dt_manufacturer (fst s)"
  "dt_model (fst (set_custom_fields e l data s)) = dt_model (fst s)"
  "dt_front_image (fst (set_custom_fields e l data s)) = dt_front_image (fst s)"
  "dt_rear_image (fst (set_custom_fields e l data s)) = dt_rear_image (fst s)"
  by (simp_all add: set_custom_fields_def Let_def split: option.splits)

lemma set_custom_fields_intact:
  "base_record_intact data s \<Longrightarrow> base_record_intact data (set_custom_fields e l data s)"
  by (auto simp: base_record_intact_def set_custom_fields_def Let_def split: option.splits)

lemma set_custom_fields_log_mono:
  "set (log (snd s)) \<subseteq> set (log (snd (set_custom_fields e l data s)))"
  by (auto simp: set_custom_fields_def Let_def split: option.splits)

lemma assign_all_map_of:
  "distinct (map fst kvs) \<Longrightarrow> map_of (assign_all cf kvs) = map_of cf ++ map_of kvs"
proof (induction kvs arbitrary: cf)
  case Nil
  then show ?case by simp
next
  case (Cons kv kvs)
  obtain k v where kv: "kv = (k, v)" by (cases kv)
  from Cons.prems kv have k: "map_of kvs k = None" and d: "distinct (map fst kvs)"
    by (auto simp: map_of_eq_None_iff)
  have "map_of (assign_all cf (kv # kvs)) = (map_of cf)(k \<mapsto> v) ++ map_of kvs"
    using Cons.IH [OF d] kv by (simp add: update_conv' fun_upd_def)
  also have "\<dots> = map_of cf ++ map_of (kv # kvs)"
    using k kv by (auto simp: map_add_def fun_eq_iff split: option.splits)
  finally show ?case .
qed

lemma stage_custom_fields_keys:
  "set (map fst (stage_custom_fields d ms)) \<subseteq> set (map fst ms)"
  by (induction ms) (auto split: option.splits)

lemma stage_custom_fields_distinct:
  "distinct (map fst ms) \<Longrightarrow> distinct (map fst (stage_custom_fields d ms))"
proof (induction ms)
  case Nil
  then show ?case by simp
next
  case (Cons m ms)
  then show ?case
    using stage_custom_fields_keys [of d ms] by (auto split: option.splits)
qed

lemma stage_custom_fields_map_of:
  "distinct (map fst ms) \<Longrightarrow>
   map_of (stage_custom_fields d ms) k =
     (case map_of ms k of None \<Rightarrow> None | Some f \<Rightarrow> map_of d f)"
proof (induction ms)
  case Nil
  then show ?case by simp
next
  case (Cons m ms)
  obtain c f where m: "m = (c, f)" by (cases m)
  from Cons.prems m have "map_of ms c = None" by (auto simp: map_of_eq_None_iff)
  with Cons m show ?case by (auto split: option.splits)
qed

lemma custom_field_mapping_distinct: "distinct (map fst custom_field_mapping)"
  by (simp add: custom_field_mapping_def)

subsection \<open>The component stage\<close>

lemma make_component_Inr:
  assumes "make_component e key cls dt item = Inr c"
  shows "\<exists>kvs. item = YDict kvs \<and>
           c = \<lparr>comp_class = cls, comp_key = key,
                comp_device_type = (dt_manufacturer dt, dt_model dt),
                comp_fields = filter (\<lambda>kv. fst kv \<notin> set (strip_keywords key)) kvs\<rparr>"
  using assms
  by (cases item) (auto simp: make_component_def Let_def split: if_splits option.splits)

lemma make_components_Inr:
  "make_components e key cls dt items = Inr cs \<Longrightarrow>
   \<exists>ds. items = map YDict ds \<and>
        cs = map (\<lambda>kvs. \<lparr>comp_class = cls, comp_key = key,
                          comp_device_type = (dt_manufacturer dt, dt_model dt),
                          comp_fields = filter (\<lambda>kv. fst kv \<notin> set (strip_keywords key)) kvs\<rparr>) ds"
proof (induction items arbitrary: cs)
  case Nil
  then show ?case by simp
next
  case (Cons item items)
  from Cons.prems obtain c cs' where c: "make_component e key cls dt item = Inr c"
    and cs': "make_components e key cls dt items = Inr cs'" and eq: "cs = c # cs'"
    by (auto split: sum.splits)
  from make_component_Inr [OF c] obtain kvs where kvs: "item = YDict kvs"
    "c = \<lparr>comp_class = cls, comp_key = key,
          comp_device_type = (dt_manufacturer dt, dt_model dt),
          comp_fields = filter (\<lambda>kv. fst kv \<notin> set (strip_keywords key)) kvs\<rparr>"
    by blast
  from Cons.IH [OF cs'] obtain ds where ds: "items = map YDict ds"
    "cs' = map (\<lambda>kvs. \<lparr>comp_class = cls, comp_key = key,
                          comp_device_type = (dt_manufacturer dt, dt_model dt),
                          comp_fields = filter (\<lambda>kv. fst kv \<notin> set (strip_keywords key)) kvs\<rparr>) ds"
    by blast
  show ?case
    by (rule exI [of _ "kvs # ds"]) (simp add: kvs ds eq)
qed

lemma import_kind_created:
  "import_kind e l data dt kc w = (None, w') \<Longrightarrow>
     components w' = components w @ created_for e data dt kc"
  by (auto simp: import_kind_def created_for_def split: option.splits sum.splits)

lemma import_components_created:
  "import_components e l data dt tbl w = (None, w') \<Longrightarrow>
     components w' = components w @ concat (map (created_for e data dt) tbl)"
proof (induction tbl arbitrary: w)
  case Nil
  then show ?case by simp
next
  case (Cons kc tbl)
  from Cons.prems obtain w1 where 1: "import_kind e l data dt kc w = (None, w1)"
    and 2: "import_components e l data dt tbl w1 = (None, w')"
    by (auto split: prod.splits option.splits)
  from import_kind_created [OF 1] Cons.IH [OF 2] show ?case by simp
qed

lemma created_for_key:
  assumes "c \<in> set (created_for e data dt kc)"
  shows "comp_key c = fst kc \<and> comp_class c = snd kc"
proof -
  obtain v where v: "map_of (entries data) (fst kc) = Some v"
    using assms by (cases "map_of (entries data) (fst kc)") (auto simp: created_for_def)
  obtain cs where cs: "component_list e dt (fst kc) (snd kc) v = Inr cs"
    using assms v by (cases "component_list e dt (fst kc) (snd kc) v") (auto simp: created_for_def)
  have c: "c \<in> set cs" using assms v cs by (simp add: created_for_def)
  from cs obtain items where "make_components e (fst kc) (snd kc) dt items = Inr cs"
    by (auto simp: component_list_def split: sum.splits)
  from make_components_Inr [OF this] c show ?thesis by auto
qed

lemma import_kind_cong:
  "map_of (entries d1) (fst kc) = map_of (entries d2) (fst kc) \<Longrightarrow> model d1 = model d2 \<Longrightarrow>
   import_kind e l d1 dt kc w = import_kind e l d2 dt kc w"
  by (simp add: import_kind_def split: option.splits sum.splits)

lemma import_components_cong:
  "\<forall>k \<in> set (map fst tbl). map_of (entries d1) k = map_of (entries d2) k \<Longrightarrow>
   model d1 = model d2 \<Longrightarrow>
   import_components e l d1 dt tbl w = import_components e l d2 dt tbl w"
proof (induction tbl arbitrary: w)
  case Nil
  then show ?case by simp
next
  case (Cons kc tbl)
  then have "import_kind e l d1 dt kc w = import_kind e l d2 dt kc w"
    by (intro import_kind_cong) simp_all
  moreover have "import_components e l d1 dt tbl w1 = import_components e l d2 dt tbl w1" for w1
    using Cons by simp
  ultimately show ?case by (simp split: prod.splits option.splits)
qed

lemma import_kind_device_types:
  "device_types (snd (import_kind e l data dt kc w)) = device_types w"
  by (simp add: import_kind_def split: option.splits sum.splits)

lemma import_components_device_types:
  "device_types (snd (import_components e l data dt tbl w)) = device_types w"
proof (induction tbl arbitrary: w)
  case Nil
  then show ?case by simp
next
  case (Cons kc tbl)
  show ?case
  proof (cases "import_kind e l data dt kc w")
    case (Pair err w1)
    have "device_types w1 = device_types w"
      using import_kind_device_types [of e l data dt kc w] Pair by simp
    with Pair Cons.IH [of w1] show ?thesis by (cases err) simp_all
  qed
qed

lemma new_device_type_intact:
  assumes "import_components e logger data (new_device_type data) tbl
             (log_info logger m (persist (new_device_type data) w)) = (None, w2)"
  shows "base_record_intact data (new_device_type data, w2)"
proof -
  have "device_types w2 = device_types (log_info logger m (persist (new_device_type data) w))"
    using import_components_device_types
      [of e logger data "new_device_type data" tbl
          "log_info logger m (persist (new_device_type data) w)"] assms
    by simp
  then show ?thesis
    by (simp add: base_record_intact_def new_device_type_def)
qed

subsection \<open>The import after its component stage\<close>

lemma import_after_components:
  assumes "manufacturers w (manufacturer data)"
    and "device_types w (manufacturer data, model data) = None"
    and "form_save_raises e data = None"
    and "import_components e logger data (new_device_type data) COMPONENTS
           (log_info logger (CreatedDeviceType (manufacturer data) (model data))
              (persist (new_device_type data) w)) = (None, w2)"
  shows "import_device_type_with_images e data git_repo logger w =
           (Inr (fst (set_custom_fields e logger data
                        (import_images e logger git_repo data (new_device_type data, w2)))),
            snd (set_custom_fields e logger data
                   (import_images e logger git_repo data (new_device_type data, w2))))"
  using assms by (simp add: import_device_type_with_images_def Let_def)

subsection \<open>The example, evaluated\<close>

lemmas ex_defs = data_ex_def world_ex_def env_ok_def new_device_type_def COMPONENTS_def
  import_kind_def component_list_def make_component_def strip_keywords_def STRIP_KEYWORDS_def
  Let_def

lemma ex_components_ok:
  "fst (import_components e True data_ex (new_device_type data_ex) COMPONENTS
          (log_info True (CreatedDeviceType (manufacturer data_ex) (model data_ex))
             (persist (new_device_type data_ex) world_ex))) = None"
  if "init_raises e = (\<lambda>c k. None)" "bulk_create_raises e = (\<lambda>c cs. None)"
  using that by (simp add: ex_defs)

lemma ex_find_front:
  "find_elevation_image fs_ex ''/repo'' ''Palo Alto'' ''PA-850'' ''front'' =
     Some ''/repo/elevation-images/Palo Alto/palo-alto-pa-850.front.png''"
  by (simp add: find_elevation_image_eq ex_dir ex_candidate extensions_def fs_ex_def)

lemma ex_find_rear:
  "find_elevation_image fs_ex ''/repo'' ''Palo Alto'' ''PA-850'' ''rear'' = None"
  by (simp add: find_elevation_image_eq ex_dir ex_candidate extensions_def fs_ex_def)

lemma ex_stage:
  "stage_custom_fields (entries data_ex) custom_field_mapping =
     [(''cf_weight'', YInt 5), (''cf_front_image'', YBool True), (''cf_rear_image'', YBool True)]"
  by (simp add: data_ex_def custom_field_mapping_def)

section \<open>Duplicates\<close>

text \<open>
  C1. When a device type with the manufacturer and the model of the input is already
  persisted (its manufacturer, which it references, being registered), the import fails
  with the duplicate error and the store is left exactly as it was: no record, no
  component, no image, no custom field and no log entry is added.
\<close>

theorem duplicate_import_rejected:
  assumes "manufacturers w (manufacturer data)"
    and "device_types w (manufacturer data, model data) = Some existing"
  shows "import_device_type_with_images e data git_repo logger w =
           (Inl (DuplicateDeviceType (model data) (manufacturer data)), w)"
  using assms by (simp add: import_device_type_with_images_def)

theorem duplicate_import_rejected_witness:
  "manufacturers (world_ex\<lparr>device_types := [(''Palo Alto'', ''PA-850'') \<mapsto> new_device_type data_ex]\<rparr>)
     (manufacturer data_ex) \<and>
   device_types (world_ex\<lparr>device_types := [(''Palo Alto'', ''PA-850'') \<mapsto> new_device_type data_ex]\<rparr>)
     (manufacturer data_ex, model data_ex) = Some (new_device_type data_ex) \<and>
   import_device_type_with_images env_ok data_ex (Some ''/repo'') True
     (world_ex\<lparr>device_types := [(''Palo Alto'', ''PA-850'') \<mapsto> new_device_type data_ex]\<rparr>) =
     (Inl (DuplicateDeviceType ''PA-850'' ''Palo Alto''),
      world_ex\<lparr>device_types := [(''Palo Alto'', ''PA-850'') \<mapsto> new_device_type data_ex]\<rparr>)"
proof -
  let ?w = "world_ex\<lparr>device_types := [(''Palo Alto'', ''PA-850'') \<mapsto> new_device_type data_ex]\<rparr>"
  have h1: "manufacturers ?w (manufacturer data_ex)"
    by (simp add: world_ex_def data_ex_def)
  have h2: "device_types ?w (manufacturer data_ex, model data_ex) = Some (new_device_type data_ex)"
    by (simp add: data_ex_def)
  show ?thesis
    using duplicate_import_rejected [OF h1 h2, of env_ok "Some ''/repo''" True] h1 h2
    by (simp add: data_ex_def)
qed

text \<open>
  C8, as the code has it. There is no handler around the creation of the record: an
  exception raised by the form's \<open>save\<close> after the existence check has passed ends
  the import as the error it is, not as the duplicate error, and nothing has been
  created.
\<close>

theorem creation_error_surfaces_unchanged:
  assumes "manufacturers w (manufacturer data)"
    and "device_types w (manufacturer data, model data) = None"
    and "form_save_raises e data = Some x"
  shows "import_device_type_with_images e data git_repo logger w = (Inl (Raised x), w) \<and>
         fst (import_device_type_with_images e data git_repo logger w)
           \<noteq> Inl (DuplicateDeviceType (model data) (manufacturer data))"
  using assms by (simp add: import_device_type_with_images_def)

theorem creation_error_surfaces_unchanged_witness:
  "manufacturers world_ex (manufacturer data_ex) \<and>
   device_types world_ex (manufacturer data_ex, model data_ex) = None \<and>
   form_save_raises (env_ok\<lparr>form_save_raises := (\<lambda>d. Some ''IntegrityError'')\<rparr>) data_ex
     = Some ''IntegrityError'' \<and>
   import_device_type_with_images (env_ok\<lparr>form_save_raises := (\<lambda>d. Some ''IntegrityError'')\<rparr>)
     data_ex None True world_ex = (Inl (Raised ''IntegrityError''), world_ex)"
proof -
  let ?e = "env_ok\<lparr>form_save_raises := (\<lambda>d. Some ''IntegrityError'')\<rparr>"
  have h1: "manufacturers world_ex (manufacturer data_ex)"
    by (simp add: world_ex_def data_ex_def)
  have h2: "device_types world_ex (manufacturer data_ex, model data_ex) = None"
    by (simp add: world_ex_def)
  have h3: "form_save_raises ?e data_ex = Some ''IntegrityError''" by simp
  show ?thesis
    using creation_error_surfaces_unchanged [OF h1 h2 h3, of None True] h1 h2 h3 by simp
qed

text \<open>
  C8, as stated, fails: with the manufacturer registered, no device type persisted and
  a creation step that raises the uniqueness violation \<open>IntegrityError\<close>, the import
  ends with that error and not with the duplicate error.
\<close>

theorem uniqueness_violation_not_duplicate_error:
  "fst (import_device_type_with_images (env_ok\<lparr>form_save_raises := (\<lambda>d. Some ''IntegrityError'')\<rparr>)
          data_ex None True world_ex) = Inl (Raised ''IntegrityError'') \<and>
   fst (import_device_type_with_images (env_ok\<lparr>form_save_raises := (\<lambda>d. Some ''IntegrityError'')\<rparr>)
          data_ex None True world_ex) \<noteq> Inl (DuplicateDeviceType (model data_ex) (manufacturer data_ex))"
  by (simp add: import_device_type_with_images_def world_ex_def data_ex_def)

section \<open>Components\<close>

text \<open>
  C10. The table has the nine kinds in the order console-ports, console-server-ports,
  power-ports, power-outlets, interfaces, rear-ports, front-ports, device-bays,
  module-bays. The component stage reads the input only at those nine keys: two inputs
  that agree there (whatever the order of their keys and whatever other keys they have)
  give the same result, and an added key outside the table changes nothing, so it
  raises nothing and creates nothing. When the stage succeeds, the components created
  are those of the kinds in the order of the table, and each belongs to a kind of the
  table.
\<close>

theorem component_table_decides_materialization:
  "map fst COMPONENTS =
     [''console-ports'', ''console-server-ports'', ''power-ports'', ''power-outlets'',
      ''interfaces'', ''rear-ports'', ''front-ports'', ''device-bays'', ''module-bays''] \<and>
   ((\<forall>k \<in> set (map fst COMPONENTS). map_of (entries d1) k = map_of (entries d2) k) \<and>
    model d1 = model d2 \<longrightarrow>
      import_components e l d1 dt COMPONENTS w = import_components e l d2 dt COMPONENTS w) \<and>
   (k \<notin> set (map fst COMPONENTS) \<longrightarrow>
      import_components e l (d1\<lparr>entries := (k, v) # entries d1\<rparr>) dt COMPONENTS w =
      import_components e l d1 dt COMPONENTS w) \<and>
   (import_components e l d1 dt COMPONENTS w = (None, w') \<longrightarrow>
      components w' = components w @ concat (map (created_for e d1 dt) COMPONENTS) \<and>
      (\<forall>c \<in> set (concat (map (created_for e d1 dt) COMPONENTS)).
         comp_key c \<in> set (map fst COMPONENTS)))"
proof (intro conjI impI)
  show "map fst COMPONENTS =
     [''console-ports'', ''console-server-ports'', ''power-ports'', ''power-outlets'',
      ''interfaces'', ''rear-ports'', ''front-ports'', ''device-bays'', ''module-bays'']"
    by (simp add: COMPONENTS_def)
next
  assume "(\<forall>k \<in> set (map fst COMPONENTS). map_of (entries d1) k = map_of (entries d2) k) \<and>
    model d1 = model d2"
  then show "import_components e l d1 dt COMPONENTS w = import_components e l d2 dt COMPONENTS w"
    using import_components_cong by blast
next
  assume k: "k \<notin> set (map fst COMPONENTS)"
  show "import_components e l (d1\<lparr>entries := (k, v) # entries d1\<rparr>) dt COMPONENTS w =
      import_components e l d1 dt COMPONENTS w"
  proof (rule import_components_cong)
    show "\<forall>k' \<in> set (map fst COMPONENTS).
            map_of (entries (d1\<lparr>entries := (k, v) # entries d1\<rparr>)) k' = map_of (entries d1) k'"
      using k by auto
  qed simp
next
  assume "import_components e l d1 dt COMPONENTS w = (None, w')"
  then show "components w' = components w @ concat (map (created_for e d1 dt) COMPONENTS)"
    by (rule import_components_created)
next
  show "\<forall>c \<in> set (concat (map (created_for e d1 dt) COMPONENTS)).
         comp_key c \<in> set (map fst COMPONENTS)"
  proof
    fix c
    assume "c \<in> set (concat (map (created_for e d1 dt) COMPONENTS))"
    then obtain kc where kc: "kc \<in> set COMPONENTS" and c: "c \<in> set (created_for e d1 dt kc)"
      by auto
    from created_for_key [OF c] have "comp_key c = fst kc" by simp
    with kc show "comp_key c \<in> set (map fst COMPONENTS)" by simp
  qed
qed

theorem component_table_decides_materialization_witness:
  "list_all (\<lambda>k. map_of (entries data_ex) k = map_of (entries data_reordered) k)
     (map fst COMPONENTS) \<and>
   model data_ex = model data_reordered \<and>
   import_components env_ok True data_ex (new_device_type data_ex) COMPONENTS world_ex =
     import_components env_ok True data_reordered (new_device_type data_ex) COMPONENTS world_ex \<and>
   ''unknown-key'' \<notin> set (map fst COMPONENTS) \<and>
   import_components env_ok True
     (data_reordered\<lparr>entries := (''unknown-key'', YInt 1) # entries data_reordered\<rparr>)
     (new_device_type data_ex) COMPONENTS world_ex =
     import_components env_ok True data_reordered (new_device_type data_ex) COMPONENTS world_ex \<and>
   fst (import_components env_ok True data_ex (new_device_type data_ex) COMPONENTS world_ex) = None \<and>
   map comp_key (components (snd (import_components env_ok True data_ex (new_device_type data_ex)
                                    COMPONENTS world_ex))) =
     [''interfaces'', ''interfaces'', ''rear-ports'']"
proof -
  let ?dt = "new_device_type data_ex"
  let ?r = "import_components env_ok True data_ex ?dt COMPONENTS world_ex"
  have a: "list_all (\<lambda>k. map_of (entries data_ex) k = map_of (entries data_reordered) k)
     (map fst COMPONENTS)"
    by (simp add: data_ex_def data_reordered_def COMPONENTS_def)
  have b: "model data_ex = model data_reordered"
    by (simp add: data_ex_def data_reordered_def)
  have c: "''unknown-key'' \<notin> set (map fst COMPONENTS)"
    by (simp add: COMPONENTS_def)
  have ok: "fst ?r = None" by (simp add: ex_defs)
  then have h: "?r = (None, snd ?r)" by (simp add: prod_eq_iff)
  have cr: "map comp_key (concat (map (created_for env_ok data_ex ?dt) COMPONENTS)) =
              [''interfaces'', ''interfaces'', ''rear-ports'']"
    by (simp add: created_for_def ex_defs)
  have w0: "components world_ex = []" by (simp add: world_ex_def)
  note t1 = component_table_decides_materialization
      [of data_ex data_reordered env_ok True ?dt world_ex "''unknown-key''" "YInt 1" "snd ?r"]
  note t2 = component_table_decides_materialization
      [of data_reordered data_reordered env_ok True ?dt world_ex "''unknown-key''" "YInt 1"]
  have a': "\<forall>k \<in> set (map fst COMPONENTS).
              map_of (entries data_ex) k = map_of (entries data_reordered) k"
    using a by (simp only: list_all_iff)
  have 1: "?r = import_components env_ok True data_reordered ?dt COMPONENTS world_ex"
    using t1 a' b by blast
  have 2: "import_components env_ok True
     (data_reordered\<lparr>entries := (''unknown-key'', YInt 1) # entries data_reordered\<rparr>)
     ?dt COMPONENTS world_ex =
     import_components env_ok True data_reordered ?dt COMPONENTS world_ex"
    using t2 c by blast
  have 3: "components (snd ?r) = components world_ex @
             concat (map (created_for env_ok data_ex ?dt) COMPONENTS)"
    using t1 h by blast
  from a b c ok 1 2 3 cr w0 show ?thesis by simp
qed

text \<open>
  C6. When the input has an \<open>interfaces\<close> list of field mappings and that list is
  materialized, the components created are, in the order of the list, one per item,
  each built from the item without its \<open>poe_mode\<close> and \<open>poe_type\<close> fields: their
  number is the number of items and no created component has either field.
\<close>

theorem interfaces_stripped_counted_ordered:
  assumes "map_of (entries data) ''interfaces'' = Some (YList (map YDict ds))"
    and "import_kind e logger data devtype (''interfaces'', ''InterfaceTemplate'') w = (None, w')"
  shows "(''interfaces'', ''InterfaceTemplate'') \<in> set COMPONENTS \<and>
     components w' = components w @
       map (\<lambda>kvs. \<lparr>comp_class = ''InterfaceTemplate'', comp_key = ''interfaces'',
                   comp_device_type = (dt_manufacturer devtype, dt_model devtype),
                   comp_fields = filter (\<lambda>kv. fst kv \<noteq> ''poe_mode'' \<and> fst kv \<noteq> ''poe_type'') kvs\<rparr>)
           ds \<and>
     length (components w') = length (components w) + length ds \<and>
     (\<forall>c \<in> set (drop (length (components w)) (components w')).
        map_of (comp_fields c) ''poe_mode'' = None \<and> map_of (comp_fields c) ''poe_type'' = None)"
proof -
  from assms obtain cs
    where cs: "make_components e ''interfaces'' ''InterfaceTemplate'' devtype (map YDict ds) = Inr cs"
    and w': "components w' = components w @ cs"
    by (auto simp: import_kind_def component_list_def split: sum.splits option.splits)
  have strip: "strip_keywords ''interfaces'' = [''poe_mode'', ''poe_type'']"
    by (simp add: strip_keywords_def STRIP_KEYWORDS_def)
  from make_components_Inr [OF cs] obtain ds' where ds': "map YDict ds = map YDict ds'"
    "cs = map (\<lambda>kvs. \<lparr>comp_class = ''InterfaceTemplate'', comp_key = ''interfaces'',
                      comp_device_type = (dt_manufacturer devtype, dt_model devtype),
                      comp_fields = filter (\<lambda>kv. fst kv \<noteq> ''poe_mode'' \<and> fst kv \<noteq> ''poe_type'') kvs\<rparr>) ds'"
    unfolding strip by auto
  from ds'(1) have "ds' = ds" by (simp add: inj_on_def)
  with ds'(2) have ds: "cs = map (\<lambda>kvs. \<lparr>comp_class = ''InterfaceTemplate'', comp_key = ''interfaces'',
                      comp_device_type = (dt_manufacturer devtype, dt_model devtype),
                      comp_fields = filter (\<lambda>kv. fst kv \<noteq> ''poe_mode'' \<and> fst kv \<noteq> ''poe_type'') kvs\<rparr>) ds"
    by simp
  have none: "map_of (filter (\<lambda>kv. fst kv \<noteq> ''poe_mode'' \<and> fst kv \<noteq> ''poe_type'') kvs) k = None"
    if "k = ''poe_mode'' \<or> k = ''poe_type''" for kvs :: pydict and k
    using that by (induction kvs) auto
  have 1: "(''interfaces'', ''InterfaceTemplate'') \<in> set COMPONENTS"
    by (simp add: COMPONENTS_def)
  have 2: "components w' = components w @
       map (\<lambda>kvs. \<lparr>comp_class = ''InterfaceTemplate'', comp_key = ''interfaces'',
                   comp_device_type = (dt_manufacturer devtype, dt_model devtype),
                   comp_fields = filter (\<lambda>kv. fst kv \<noteq> ''poe_mode'' \<and> fst kv \<noteq> ''poe_type'') kvs\<rparr>)
           ds"
    using ds w' by simp
  have 3: "length (components w') = length (components w) + length ds"
    using ds w' by simp
  have 4: "\<forall>c \<in> set (drop (length (components w)) (components w')).
        map_of (comp_fields c) ''poe_mode'' = None \<and> map_of (comp_fields c) ''poe_type'' = None"
    using ds w' none by auto
  from 1 2 3 4 show ?thesis by blast
qed

theorem interfaces_stripped_counted_ordered_witness:
  "map_of (entries data_ex) ''interfaces'' =
     Some (YList (map YDict [[(''name'', YStr ''eth0''), (''poe_mode'', YStr ''pd'')],
                             [(''poe_type'', YStr ''type2''), (''name'', YStr ''eth1'')]])) \<and>
   fst (import_kind env_ok True data_ex (new_device_type data_ex)
          (''interfaces'', ''InterfaceTemplate'') world_ex) = None \<and>
   map comp_fields (components (snd (import_kind env_ok True data_ex (new_device_type data_ex)
          (''interfaces'', ''InterfaceTemplate'') world_ex))) =
     [[(''name'', YStr ''eth0'')], [(''name'', YStr ''eth1'')]] \<and>
   length (components (snd (import_kind env_ok True data_ex (new_device_type data_ex)
          (''interfaces'', ''InterfaceTemplate'') world_ex))) = 2"
proof -
  let ?r = "import_kind env_ok True data_ex (new_device_type data_ex)
              (''interfaces'', ''InterfaceTemplate'') world_ex"
  have h1: "map_of (entries data_ex) ''interfaces'' =
     Some (YList (map YDict [[(''name'', YStr ''eth0''), (''poe_mode'', YStr ''pd'')],
                             [(''poe_type'', YStr ''type2''), (''name'', YStr ''eth1'')]]))"
    by (simp add: data_ex_def)
  have ok: "fst ?r = None" by (simp add: ex_defs)
  then have h2: "?r = (None, snd ?r)" by (simp add: prod_eq_iff)
  have w0: "components world_ex = []" by (simp add: world_ex_def)
  from interfaces_stripped_counted_ordered [OF h1 h2] w0
  have "map comp_fields (components (snd ?r)) =
          [[(''name'', YStr ''eth0'')], [(''name'', YStr ''eth1'')]]"
    and "length (components (snd ?r)) = 2"
    by simp_all
  with h1 ok show ?thesis by blast
qed

section \<open>Images are best effort\<close>

text \<open>
  C3. Once the base record and the components are created, the import returns the
  record, whatever happens to the images: the record returned and its persisted row
  carry the manufacturer and the model of the input, and the components are those that
  were created. When an image of an orientation was requested and found and attaching
  it raises, a warning naming the failure is in the log of a logger that is present;
  when it was requested and not found, a warning says so.
\<close>

theorem image_failure_does_not_abort:
  assumes "manufacturers w (manufacturer data)"
    and "device_types w (manufacturer data, model data) = None"
    and "form_save_raises e data = None"
    and "import_components e logger data (new_device_type data) COMPONENTS
           (log_info logger (CreatedDeviceType (manufacturer data) (model data))
              (persist (new_device_type data) w)) = (None, w2)"
  shows "(case fst (import_device_type_with_images e data git_repo logger w) of
            Inl err \<Rightarrow> False
          | Inr dt \<Rightarrow> dt_manufacturer dt = manufacturer data \<and> dt_model dt = model data) \<and>
         components (snd (import_device_type_with_images e data git_repo logger w)) = components w2 \<and>
         (case device_types (snd (import_device_type_with_images e data git_repo logger w))
                 (manufacturer data, model data) of
            None \<Rightarrow> False
          | Some r \<Rightarrow> dt_manufacturer r = manufacturer data \<and> dt_model r = model data) \<and>
         (git_repo = Some repo \<and> logger \<and> get_truthy (entries data) (image_flag orient) \<and>
          find_elevation_image (path_exists e) repo (manufacturer data) (model data)
            (image_type_of orient) = Some p \<and>
          image_save_raises e orient p = Some x
          \<longrightarrow> Warning (FailedImage orient (Raised x))
                \<in> set (log (snd (import_device_type_with_images e data git_repo logger w)))) \<and>
         (git_repo = Some repo \<and> logger \<and> get_truthy (entries data) (image_flag orient) \<and>
          find_elevation_image (path_exists e) repo (manufacturer data) (model data)
            (image_type_of orient) = None
          \<longrightarrow> Warning (ImageNotFound orient (manufacturer data) (model data))
                \<in> set (log (snd (import_device_type_with_images e data git_repo logger w))))"
proof -
  let ?s3 = "import_images e logger git_repo data (new_device_type data, w2)"
  let ?s4 = "set_custom_fields e logger data ?s3"
  have r: "import_device_type_with_images e data git_repo logger w = (Inr (fst ?s4), snd ?s4)"
    using assms by (rule import_after_components)
  have "base_record_intact data (new_device_type data, w2)"
    using assms(4) by (rule new_device_type_intact)
  then have "base_record_intact data ?s4"
    by (intro set_custom_fields_intact import_images_intact)
  then have 1: "dt_manufacturer (fst ?s4) = manufacturer data \<and> dt_model (fst ?s4) = model data"
    and 3: "(case device_types (snd ?s4) (manufacturer data, model data) of
            None \<Rightarrow> False
          | Some r \<Rightarrow> dt_manufacturer r = manufacturer data \<and> dt_model r = model data)"
    by (simp_all add: base_record_intact_def)
  have 2: "components (snd ?s4) = components w2"
    by (simp add: set_custom_fields_components import_images_components)
  have mono: "set (log (snd ?s3)) \<subseteq> set (log (snd ?s4))"
    by (rule set_custom_fields_log_mono)
  have 4: "Warning (FailedImage orient (Raised x)) \<in> set (log (snd ?s4))"
    if "git_repo = Some repo" "logger" "get_truthy (entries data) (image_flag orient)"
      "find_elevation_image (path_exists e) repo (manufacturer data) (model data)
            (image_type_of orient) = Some p"
      "image_save_raises e orient p = Some x"
    using import_images_failure_logged [OF that(3,4,5)] that(1,2) mono by auto
  have 5: "Warning (ImageNotFound orient (manufacturer data) (model data)) \<in> set (log (snd ?s4))"
    if "git_repo = Some repo" "logger" "get_truthy (entries data) (image_flag orient)"
      "find_elevation_image (path_exists e) repo (manufacturer data) (model data)
            (image_type_of orient) = None"
    using import_images_miss_logged [OF that(3,4)] that(1,2) mono by auto
  show ?thesis
    unfolding r using 1 2 3 4 5 by simp
qed

theorem image_failure_does_not_abort_witness:
  "manufacturers world_ex (manufacturer data_ex) \<and>
   device_types world_ex (manufacturer data_ex, model data_ex) = None \<and>
   form_save_raises (env_ok\<lparr>image_save_raises := (\<lambda>orient p. Some ''PermissionError'')\<rparr>) data_ex
     = None \<and>
   fst (import_components (env_ok\<lparr>image_save_raises := (\<lambda>orient p. Some ''PermissionError'')\<rparr>)
          True data_ex (new_device_type data_ex) COMPONENTS
          (log_info True (CreatedDeviceType (manufacturer data_ex) (model data_ex))
             (persist (new_device_type data_ex) world_ex))) = None \<and>
   get_truthy (entries data_ex) (image_flag Front) \<and>
   get_truthy (entries data_ex) (image_flag Rear) \<and>
   find_elevation_image
     (path_exists (env_ok\<lparr>image_save_raises := (\<lambda>orient p. Some ''PermissionError'')\<rparr>))
     ''/repo'' (manufacturer data_ex) (model data_ex) (image_type_of Front) =
     Some ''/repo/elevation-images/Palo Alto/palo-alto-pa-850.front.png'' \<and>
   find_elevation_image
     (path_exists (env_ok\<lparr>image_save_raises := (\<lambda>orient p. Some ''PermissionError'')\<rparr>))
     ''/repo'' (manufacturer data_ex) (model data_ex) (image_type_of Rear) = None \<and>
   components (snd (import_device_type_with_images
       (env_ok\<lparr>image_save_raises := (\<lambda>orient p. Some ''PermissionError'')\<rparr>)
       data_ex (Some ''/repo'') True world_ex)) =
     components (snd (import_components
          (env_ok\<lparr>image_save_raises := (\<lambda>orient p. Some ''PermissionError'')\<rparr>)
          True data_ex (new_device_type data_ex) COMPONENTS
          (log_info True (CreatedDeviceType (manufacturer data_ex) (model data_ex))
             (persist (new_device_type data_ex) world_ex)))) \<and>
   Warning (FailedImage Front (Raised ''PermissionError''))
     \<in> set (log (snd (import_device_type_with_images
                        (env_ok\<lparr>image_save_raises := (\<lambda>orient p. Some ''PermissionError'')\<rparr>)
                        data_ex (Some ''/repo'') True world_ex))) \<and>
   Warning (ImageNotFound Rear ''Palo Alto'' ''PA-850'')
     \<in> set (log (snd (import_device_type_with_images
                        (env_ok\<lparr>image_save_raises := (\<lambda>orient p. Some ''PermissionError'')\<rparr>)
                        data_ex (Some ''/repo'') True world_ex)))"
proof -
  let ?e = "env_ok\<lparr>image_save_raises := (\<lambda>orient p. Some ''PermissionError'')\<rparr>"
  let ?w1 = "log_info True (CreatedDeviceType (manufacturer data_ex) (model data_ex))
               (persist (new_device_type data_ex) world_ex)"
  let ?r = "import_components ?e True data_ex (new_device_type data_ex) COMPONENTS ?w1"
  have h1: "manufacturers world_ex (manufacturer data_ex)"
    by (simp add: world_ex_def data_ex_def)
  have h2: "device_types world_ex (manufacturer data_ex, model data_ex) = None"
    by (simp add: world_ex_def)
  have h3: "form_save_raises ?e data_ex = None" by (simp add: env_ok_def)
  have ok: "fst ?r = None" by (rule ex_components_ok) (simp_all add: env_ok_def)
  then have h4: "?r = (None, snd ?r)" by (simp add: prod_eq_iff)
  have md: "manufacturer data_ex = ''Palo Alto''" "model data_ex = ''PA-850''"
    by (simp_all add: data_ex_def)
  have fl: "get_truthy (entries data_ex) (image_flag Front)"
    "get_truthy (entries data_ex) (image_flag Rear)"
    by (simp_all add: data_ex_def get_truthy_def image_flag_def)
  have pe: "path_exists ?e = fs_ex" by (simp add: env_ok_def)
  have ff: "find_elevation_image (path_exists ?e) ''/repo'' (manufacturer data_ex) (model data_ex)
              (image_type_of Front) = Some ''/repo/elevation-images/Palo Alto/palo-alto-pa-850.front.png''"
    by (simp add: pe md ex_find_front)
  have fr: "find_elevation_image (path_exists ?e) ''/repo'' (manufacturer data_ex) (model data_ex)
              (image_type_of Rear) = None"
    by (simp add: pe md ex_find_rear)
  have sr: "image_save_raises ?e Front ''/repo/elevation-images/Palo Alto/palo-alto-pa-850.front.png''
              = Some ''PermissionError''"
    by simp
  note t1 = image_failure_does_not_abort [OF h1 h2 h3 h4, of "Some ''/repo''" "''/repo''" Front
      "''/repo/elevation-images/Palo Alto/palo-alto-pa-850.front.png''" "''PermissionError''"]
  note t2 = image_failure_does_not_abort [OF h1 h2 h3 h4, of "Some ''/repo''" "''/repo''" Rear]
  have c1: "components (snd (import_device_type_with_images ?e data_ex (Some ''/repo'') True world_ex))
              = components (snd ?r)"
    using t1 by blast
  have c2: "Warning (FailedImage Front (Raised ''PermissionError''))
     \<in> set (log (snd (import_device_type_with_images ?e data_ex (Some ''/repo'') True world_ex)))"
    using t1 fl ff sr by blast
  have c3: "Warning (ImageNotFound Rear ''Palo Alto'' ''PA-850'')
     \<in> set (log (snd (import_device_type_with_images ?e data_ex (Some ''/repo'') True world_ex)))"
    using t2 fl fr md by simp
  from h1 h2 h3 ok fl ff fr c1 c2 c3 show ?thesis by blast
qed

section \<open>Custom fields are best effort\<close>

text \<open>
  C7. The mapping has six entries, for the fields slug, weight, weight_unit, airflow,
  front_image and rear_image; a value is staged under a key exactly when the key is in
  the mapping and its field is present in the input. When nothing is staged the record
  and the store are unchanged. Otherwise the custom fields of the returned record are
  the old ones overridden by all staged values. When \<open>save\<close> does not raise, the
  stored rows are those before with the row of the record now holding the returned
  record, and the log gains one info entry; when \<open>save\<close> raises, no stored row
  changes and the log of a logger that is present gains the warning naming the failure.
  In every case the manufacturer, the model and the images of the record, and the
  manufacturers, components and media of the store, are untouched, and the import,
  having reached this stage, returns the record.
\<close>

theorem custom_field_backfill_is_best_effort:
  "map snd custom_field_mapping =
     [''slug'', ''weight'', ''weight_unit'', ''airflow'', ''front_image'', ''rear_image''] \<and>
   map_of (stage_custom_fields (entries data) custom_field_mapping) k =
     (case map_of custom_field_mapping k of None \<Rightarrow> None | Some f \<Rightarrow> map_of (entries data) f) \<and>
   (stage_custom_fields (entries data) custom_field_mapping = [] \<longrightarrow>
      set_custom_fields e logger data (dt, w) = (dt, w)) \<and>
   (stage_custom_fields (entries data) custom_field_mapping \<noteq> [] \<longrightarrow>
      fst (set_custom_fields e logger data (dt, w)) =
        dt\<lparr>dt_cf := assign_all (dt_cf dt) (stage_custom_fields (entries data) custom_field_mapping)\<rparr> \<and>
      map_of (dt_cf (fst (set_custom_fields e logger data (dt, w)))) =
        map_of (dt_cf dt) ++ map_of (stage_custom_fields (entries data) custom_field_mapping)) \<and>
   (stage_custom_fields (entries data) custom_field_mapping \<noteq> [] \<and>
    save_raises e (dt\<lparr>dt_cf := assign_all (dt_cf dt)
                      (stage_custom_fields (entries data) custom_field_mapping)\<rparr>) = None \<longrightarrow>
      device_types (snd (set_custom_fields e logger data (dt, w))) =
        (device_types w)((dt_manufacturer dt, dt_model dt) \<mapsto>
           fst (set_custom_fields e logger data (dt, w))) \<and>
      log (snd (set_custom_fields e logger data (dt, w))) =
        (if logger
         then log w @ [Info (SetCustomFields
                               (map fst (stage_custom_fields (entries data) custom_field_mapping)))]
         else log w)) \<and>
   (stage_custom_fields (entries data) custom_field_mapping \<noteq> [] \<and>
    save_raises e (dt\<lparr>dt_cf := assign_all (dt_cf dt)
                      (stage_custom_fields (entries data) custom_field_mapping)\<rparr>) = Some x \<longrightarrow>
      device_types (snd (set_custom_fields e logger data (dt, w))) = device_types w \<and>
      log (snd (set_custom_fields e logger data (dt, w))) =
        (if logger then log w @ [Warning (FailedCustomFields (Raised x))] else log w)) \<and>
   dt_manufacturer (fst (set_custom_fields e logger data (dt, w))) = dt_manufacturer dt \<and>
   dt_model (fst (set_custom_fields e logger data (dt, w))) = dt_model dt \<and>
   dt_front_image (fst (set_custom_fields e logger data (dt, w))) = dt_front_image dt \<and>
   dt_rear_image (fst (set_custom_fields e logger data (dt, w))) = dt_rear_image dt \<and>
   manufacturers (snd (set_custom_fields e logger data (dt, w))) = manufacturers w \<and>
   components (snd (set_custom_fields e logger data (dt, w))) = components w \<and>
   media (snd (set_custom_fields e logger data (dt, w))) = media w \<and>
   (manufacturers w0 (manufacturer data) \<and>
    device_types w0 (manufacturer data, model data) = None \<and>
    form_save_raises e data = None \<and>
    import_components e logger data (new_device_type data) COMPONENTS
      (log_info logger (CreatedDeviceType (manufacturer data) (model data))
         (persist (new_device_type data) w0)) = (None, w2) \<longrightarrow>
      import_device_type_with_images e data git_repo logger w0 =
        (Inr (fst (set_custom_fields e logger data
                     (import_images e logger git_repo data (new_device_type data, w2)))),
         snd (set_custom_fields e logger data
                (import_images e logger git_repo data (new_device_type data, w2)))))"
proof -
  let ?cf = "stage_custom_fields (entries data) custom_field_mapping"
  let ?dt' = "dt\<lparr>dt_cf := assign_all (dt_cf dt) ?cf\<rparr>"
  let ?r = "set_custom_fields e logger data (dt, w)"
  have 1: "map snd custom_field_mapping =
     [''slug'', ''weight'', ''weight_unit'', ''airflow'', ''front_image'', ''rear_image'']"
    by (simp add: custom_field_mapping_def)
  have 2: "map_of ?cf k =
     (case map_of custom_field_mapping k of None \<Rightarrow> None | Some f \<Rightarrow> map_of (entries data) f)"
    using custom_field_mapping_distinct by (rule stage_custom_fields_map_of)
  have m: "map_of (assign_all (dt_cf dt) ?cf) = map_of (dt_cf dt) ++ map_of ?cf"
    by (intro assign_all_map_of stage_custom_fields_distinct custom_field_mapping_distinct)
  have 3: "?cf = [] \<longrightarrow> ?r = (dt, w)"
    by (simp add: set_custom_fields_def)
  have f: "fst ?r = ?dt'" if "?cf \<noteq> []"
    using that by (simp add: set_custom_fields_def Let_def split: option.splits)
  have 4: "?cf \<noteq> [] \<longrightarrow> fst ?r = ?dt' \<and> map_of (dt_cf (fst ?r)) = map_of (dt_cf dt) ++ map_of ?cf"
    using f m by simp
  have 5: "?cf \<noteq> [] \<and> save_raises e ?dt' = None \<longrightarrow>
      device_types (snd ?r) = (device_types w)((dt_manufacturer dt, dt_model dt) \<mapsto> fst ?r) \<and>
      log (snd ?r) = (if logger then log w @ [Info (SetCustomFields (map fst ?cf))] else log w)"
    by (simp add: set_custom_fields_def Let_def)
  have 6: "?cf \<noteq> [] \<and> save_raises e ?dt' = Some x \<longrightarrow>
      device_types (snd ?r) = device_types w \<and>
      log (snd ?r) = (if logger then log w @ [Warning (FailedCustomFields (Raised x))] else log w)"
    by (simp add: set_custom_fields_def Let_def)
  have 7: "dt_manufacturer (fst ?r) = dt_manufacturer dt"
    "dt_model (fst ?r) = dt_model dt"
    "dt_front_image (fst ?r) = dt_front_image dt"
    "dt_rear_image (fst ?r) = dt_rear_image dt"
    "components (snd ?r) = components w"
    by (simp_all add: set_custom_fields_key set_custom_fields_components)
  have 8: "manufacturers (snd ?r) = manufacturers w" "media (snd ?r) = media w"
    by (simp_all add: set_custom_fields_def Let_def split: option.splits)
  have 9: "manufacturers w0 (manufacturer data) \<and>
    device_types w0 (manufacturer data, model data) = None \<and>
    form_save_raises e data = None \<and>
    import_components e logger data (new_device_type data) COMPONENTS
      (log_info logger (CreatedDeviceType (manufacturer data) (model data))
         (persist (new_device_type data) w0)) = (None, w2) \<longrightarrow>
      import_device_type_with_images e data git_repo logger w0 =
        (Inr (fst (set_custom_fields e logger data
                     (import_images e logger git_repo data (new_device_type data, w2)))),
         snd (set_custom_fields e logger data
                (import_images e logger git_repo data (new_device_type data, w2))))"
    using import_after_components by blast
  from 1 2 3 4 5 6 7 8 9 show ?thesis by blast
qed

theorem custom_field_backfill_is_best_effort_witness:
  "stage_custom_fields (entries data_ex) custom_field_mapping =
     [(''cf_weight'', YInt 5), (''cf_front_image'', YBool True), (''cf_rear_image'', YBool True)] \<and>
   save_raises env_ok
     (new_device_type data_ex\<lparr>dt_cf := assign_all (dt_cf (new_device_type data_ex))
        (stage_custom_fields (entries data_ex) custom_field_mapping)\<rparr>) = None \<and>
   dt_cf (fst (set_custom_fields env_ok True data_ex (new_device_type data_ex, world_ex))) =
     [(''cf_weight'', YInt 5), (''cf_front_image'', YBool True), (''cf_rear_image'', YBool True)] \<and>
   device_types (snd (set_custom_fields env_ok True data_ex (new_device_type data_ex, world_ex)))
     (''Palo Alto'', ''PA-850'') =
     Some (new_device_type data_ex\<lparr>dt_cf :=
             [(''cf_weight'', YInt 5), (''cf_front_image'', YBool True),
              (''cf_rear_image'', YBool True)]\<rparr>) \<and>
   log (snd (set_custom_fields env_ok True data_ex (new_device_type data_ex, world_ex))) =
     [Info (SetCustomFields [''cf_weight'', ''cf_front_image'', ''cf_rear_image''])] \<and>
   save_raises (env_ok\<lparr>save_raises := (\<lambda>dt. Some ''DatabaseError'')\<rparr>)
     (new_device_type data_ex\<lparr>dt_cf := assign_all (dt_cf (new_device_type data_ex))
        (stage_custom_fields (entries data_ex) custom_field_mapping)\<rparr>) = Some ''DatabaseError'' \<and>
   device_types (snd (set_custom_fields (env_ok\<lparr>save_raises := (\<lambda>dt. Some ''DatabaseError'')\<rparr>)
                        True data_ex (new_device_type data_ex, world_ex)))
     (''Palo Alto'', ''PA-850'') = None \<and>
   log (snd (set_custom_fields (env_ok\<lparr>save_raises := (\<lambda>dt. Some ''DatabaseError'')\<rparr>)
               True data_ex (new_device_type data_ex, world_ex))) =
     [Warning (FailedCustomFields (Raised ''DatabaseError''))] \<and>
   stage_custom_fields (entries data_reordered) custom_field_mapping = [] \<and>
   set_custom_fields env_ok True data_reordered (new_device_type data_ex, world_ex) =
     (new_device_type data_ex, world_ex) \<and>
   manufacturers world_ex (manufacturer data_ex) \<and>
   device_types world_ex (manufacturer data_ex, model data_ex) = None \<and>
   form_save_raises (env_ok\<lparr>save_raises := (\<lambda>dt. Some ''DatabaseError'')\<rparr>) data_ex = None \<and>
   fst (import_components (env_ok\<lparr>save_raises := (\<lambda>dt. Some ''DatabaseError'')\<rparr>) True data_ex
          (new_device_type data_ex) COMPONENTS
          (log_info True (CreatedDeviceType (manufacturer data_ex) (model data_ex))
             (persist (new_device_type data_ex) world_ex))) = None \<and>
   fst (import_device_type_with_images (env_ok\<lparr>save_raises := (\<lambda>dt. Some ''DatabaseError'')\<rparr>)
          data_ex None True world_ex) =
     Inr (new_device_type data_ex\<lparr>dt_cf :=
            [(''cf_weight'', YInt 5), (''cf_front_image'', YBool True),
             (''cf_rear_image'', YBool True)]\<rparr>) \<and>
   Warning (FailedCustomFields (Raised ''DatabaseError''))
     \<in> set (log (snd (import_device_type_with_images
                        (env_ok\<lparr>save_raises := (\<lambda>dt. Some ''DatabaseError'')\<rparr>)
                        data_ex None True world_ex)))"
proof -
  let ?dt = "new_device_type data_ex"
  let ?cf = "stage_custom_fields (entries data_ex) custom_field_mapping"
  let ?vals = "[(''cf_weight'', YInt 5), (''cf_front_image'', YBool True),
                (''cf_rear_image'', YBool True)]"
  let ?ef = "env_ok\<lparr>save_raises := (\<lambda>dt. Some ''DatabaseError'')\<rparr>"
  let ?w1 = "log_info True (CreatedDeviceType (manufacturer data_ex) (model data_ex))
               (persist ?dt world_ex)"
  let ?rc = "import_components ?ef True data_ex ?dt COMPONENTS ?w1"
  have ne: "?cf \<noteq> []" by (simp add: ex_stage)
  have cf0: "dt_cf ?dt = []" by (simp add: new_device_type_def)
  have key: "dt_manufacturer ?dt = ''Palo Alto''" "dt_model ?dt = ''PA-850''"
    by (simp_all add: new_device_type_def data_ex_def)
  have asg: "assign_all (dt_cf ?dt) ?cf = ?vals"
    by (simp add: ex_stage cf0)
  have s1: "save_raises env_ok (?dt\<lparr>dt_cf := assign_all (dt_cf ?dt) ?cf\<rparr>) = None"
    by (simp add: env_ok_def)
  have s2: "save_raises ?ef (?dt\<lparr>dt_cf := assign_all (dt_cf ?dt) ?cf\<rparr>) = Some ''DatabaseError''"
    by simp
  have e0: "stage_custom_fields (entries data_reordered) custom_field_mapping = []"
    by (simp add: data_reordered_def custom_field_mapping_def)
  have h1: "manufacturers world_ex (manufacturer data_ex)"
    by (simp add: world_ex_def data_ex_def)
  have h2: "device_types world_ex (manufacturer data_ex, model data_ex) = None"
    by (simp add: world_ex_def)
  have h3: "form_save_raises ?ef data_ex = None" by (simp add: env_ok_def)
  have ok: "fst ?rc = None" by (rule ex_components_ok) (simp_all add: env_ok_def)
  then have h4: "?rc = (None, snd ?rc)" by (simp add: prod_eq_iff)
  have w0: "log world_ex = []" "device_types world_ex = (\<lambda>k. None)"
    by (simp_all add: world_ex_def)
  note t1 = custom_field_backfill_is_best_effort [of data_ex _ env_ok True ?dt world_ex]
  note t2 = custom_field_backfill_is_best_effort
      [of data_ex _ ?ef True ?dt world_ex "''DatabaseError''"]
  note t3 = custom_field_backfill_is_best_effort [of data_reordered _ env_ok True ?dt world_ex]
  note t4 = custom_field_backfill_is_best_effort
      [of data_ex _ ?ef True ?dt "snd ?rc" "''DatabaseError''" world_ex "snd ?rc" None]
  from t1 ne have f1: "fst (set_custom_fields env_ok True data_ex (?dt, world_ex)) =
      ?dt\<lparr>dt_cf := assign_all (dt_cf ?dt) ?cf\<rparr>"
    by blast
  then have c1: "dt_cf (fst (set_custom_fields env_ok True data_ex (?dt, world_ex))) = ?vals"
    by (simp add: asg)
  from t1 ne s1 have "device_types (snd (set_custom_fields env_ok True data_ex (?dt, world_ex))) =
        (device_types world_ex)((dt_manufacturer ?dt, dt_model ?dt) \<mapsto>
           fst (set_custom_fields env_ok True data_ex (?dt, world_ex)))"
    by blast
  then have c2: "device_types (snd (set_custom_fields env_ok True data_ex (?dt, world_ex)))
       (''Palo Alto'', ''PA-850'') = Some (?dt\<lparr>dt_cf := ?vals\<rparr>)"
    by (simp add: f1 asg key)
  from t1 ne s1 have "log (snd (set_custom_fields env_ok True data_ex (?dt, world_ex))) =
      (if True then log world_ex @ [Info (SetCustomFields (map fst ?cf))] else log world_ex)"
    by blast
  then have c3: "log (snd (set_custom_fields env_ok True data_ex (?dt, world_ex))) =
     [Info (SetCustomFields [''cf_weight'', ''cf_front_image'', ''cf_rear_image''])]"
    by (simp add: ex_stage w0)
  from t2 ne s2 have "device_types (snd (set_custom_fields ?ef True data_ex (?dt, world_ex))) =
        device_types world_ex"
    and "log (snd (set_custom_fields ?ef True data_ex (?dt, world_ex))) =
      (if True then log world_ex @ [Warning (FailedCustomFields (Raised ''DatabaseError''))]
       else log world_ex)"
    by blast+
  then have c4: "device_types (snd (set_custom_fields ?ef True data_ex (?dt, world_ex)))
       (''Palo Alto'', ''PA-850'') = None"
    and c5: "log (snd (set_custom_fields ?ef True data_ex (?dt, world_ex))) =
       [Warning (FailedCustomFields (Raised ''DatabaseError''))]"
    by (simp_all add: w0)
  from t3 e0 have c6: "set_custom_fields env_ok True data_reordered (?dt, world_ex) = (?dt, world_ex)"
    by blast
  have ii: "import_images ?ef True None data_ex (?dt, snd ?rc) = (?dt, snd ?rc)"
    by (simp add: import_images_def)
  from t4 h1 h2 h3 h4 have imp: "import_device_type_with_images ?ef data_ex None True world_ex =
        (Inr (fst (set_custom_fields ?ef True data_ex
                     (import_images ?ef True None data_ex (?dt, snd ?rc)))),
         snd (set_custom_fields ?ef True data_ex
                (import_images ?ef True None data_ex (?dt, snd ?rc))))"
    by blast
  from t4 ne have "fst (set_custom_fields ?ef True data_ex (?dt, snd ?rc)) =
      ?dt\<lparr>dt_cf := assign_all (dt_cf ?dt) ?cf\<rparr>"
    by blast
  then have c7: "fst (import_device_type_with_images ?ef data_ex None True world_ex) =
      Inr (?dt\<lparr>dt_cf := ?vals\<rparr>)"
    by (simp add: imp ii asg)
  from t4 ne s2 have "log (snd (set_custom_fields ?ef True data_ex (?dt, snd ?rc))) =
      (if True then log (snd ?rc) @ [Warning (FailedCustomFields (Raised ''DatabaseError''))]
       else log (snd ?rc))"
    by blast
  then have c8: "Warning (FailedCustomFields (Raised ''DatabaseError''))
     \<in> set (log (snd (import_device_type_with_images ?ef data_ex None True world_ex)))"
    by (simp add: imp ii)
  from ex_stage s1 c1 c2 c3 s2 c4 c5 e0 c6 h1 h2 h3 ok c7 c8 show ?thesis by blast
qed

end
